theory Spec2Isabelle
  imports Complex_Main
begin

section \<open>Conventions of the embedding\<close>

text \<open>
  The program is Python. Its \<open>float\<close> values are modelled by \<^typ>\<open>real\<close> (exact
  arithmetic, no rounding, no NaN), its \<open>int\<close> values by \<^typ>\<open>int\<close>, its strings by
  \<^typ>\<open>string\<close>. A dictionary read with \<open>d.get(k, default)\<close> is a record field of
  option type, the default written out where the code reads it; a dictionary read with
  \<open>d[k]\<close> raises \<open>KeyError\<close> when the key is absent, which is the value
  \<open>Inl KeyError\<close> of the model. The JSON tables under \<open>data/\<close> are not part of the
  sources: they are parameters of every function that reads them. A rule entry
  \<open>{'multiplier': m, ...}\<close> is modelled by its multiplier, the only field the code reads.
  The descriptive strings the code builds with f-strings are modelled by a datatype that
  holds the template and the interpolated values.
\<close>

datatype py_error = KeyError | ValueError | ZeroDivisionError

text \<open>
  Python's \<open>x / y\<close> raises \<open>ZeroDivisionError\<close> when \<open>y\<close> is zero, where HOL's
  division returns \<open>0\<close>. Every division by a value that is not a non-zero literal is
  written with \<open>true_div\<close>, so that the fault is a result of the model.
\<close>

definition true_div :: "real \<Rightarrow> real \<Rightarrow> py_error + real" where
  "true_div x y = (if y = 0 then Inl ZeroDivisionError else Inr (x / y))"

section \<open>underwriting\_engine.py\<close>

datatype UnderwritingDecision =
    APPROVED_STANDARD
  | APPROVED_SUBSTANDARD
  | APPROVED_PREFERRED
  | DECLINED
  | POSTPONED

datatype risk_factor =
    Medical_condition string real
  | Medical_unknown_condition string
  | Underweight_BMI real
  | Overweight_BMI real
  | Obese_Class_I_BMI real
  | Obese_Class_II_BMI real
  | Obese_Class_III_BMI real
  | Medical_age_adjustment real
  | Smoking string real
  | Alcohol_use string real
  | Hazardous_activity string real
  | Occupation string int real
  | Age_hazardous_occupation_adjustment real
  | Coverage_exceeds_income_limit real
  | Monthly_benefit_exceeds_income real
  | Net_worth_below_requirement real int
  | High_debt_to_income_ratio real

record RiskAssessment =
  overall_risk_multiplier :: real
  medical_risk_multiplier :: real
  lifestyle_risk_multiplier :: real
  occupation_risk_multiplier :: real
  financial_risk_score :: real
  underwriting_decision :: UnderwritingDecision
  maximum_coverage :: int
  risk_factors_identified :: "risk_factor list"

subsection \<open>The rule tables (data/underwriting\_rules.json)\<close>

type_synonym rule_table = "string \<rightharpoonup> real"

record lifestyle_factors_rules =
  smoking :: "rule_table option"
  alcohol :: "rule_table option"
  hazardous_activities_rules :: "rule_table option"

record net_worth_requirements_rules =
  coverage_5m_plus :: "real option"
  coverage_1m_plus :: "real option"

record financial_underwriting_rules =
  life_insurance_max_coverage_multiple :: "real option"
  disability_insurance_max_benefit_percentage :: "real option"
  net_worth_requirements :: "net_worth_requirements_rules option"

record underwriting_rules =
  medical_conditions :: "(string \<times> rule_table) list option"
  lifestyle_factors :: "lifestyle_factors_rules option"
  occupation_factors :: "rule_table option"
  financial_underwriting :: "financial_underwriting_rules option"

subsection \<open>The applicant\<close>

text \<open>
  The dictionaries of \<open>applicant_data\<close>, one record each, a field for every key the
  code reads. \<open>mh_age\<close> is the key \<open>'age'\<close> of the medical history (the applicant's
  own age is the field \<open>age\<close> of \<open>applicant_data\<close>); \<open>occupation_class\<close> and
  \<open>occupation_title\<close> are the keys \<open>'class'\<close> and \<open>'title'\<close> of the occupation.
\<close>

record medical_history =
  conditions :: "string list option"
  height :: "real option"
  weight :: "real option"
  mh_age :: "int option"

record lifestyle_info =
  smoking_status :: "string option"
  alcohol_use :: "string option"
  hazardous_activities :: "string list option"

record occupation_info =
  occupation_class :: "int option"
  occupation_title :: "string option"

record financial_info =
  annual_income :: "real option"
  net_worth :: "real option"
  total_debt :: "real option"

record applicant_data =
  age :: "int option"
  gender :: "string option"
  medical_history :: "medical_history option"
  lifestyle :: "lifestyle_info option"
  occupation :: "occupation_info option"
  financial_info :: "financial_info option"

definition empty_medical_history :: medical_history where
  "empty_medical_history =
     \<lparr>conditions = None, height = None, weight = None, mh_age = None\<rparr>"

definition empty_lifestyle_info :: lifestyle_info where
  "empty_lifestyle_info =
     \<lparr>smoking_status = None, alcohol_use = None, hazardous_activities = None\<rparr>"

definition empty_occupation_info :: occupation_info where
  "empty_occupation_info = \<lparr>occupation_class = None, occupation_title = None\<rparr>"

definition empty_financial_info :: financial_info where
  "empty_financial_info = \<lparr>annual_income = None, net_worth = None, total_debt = None\<rparr>"

subsection \<open>BMI\<close>

definition calculate_bmi :: "real \<Rightarrow> real \<Rightarrow> py_error + real" where
  "calculate_bmi weight_lbs height_inches =
     (if height_inches \<le> 0 then Inr 25
      else true_div (weight_lbs * 703) (height_inches ^ 2))"

definition assess_bmi_risk :: "real \<Rightarrow> real \<times> risk_factor option" where
  "assess_bmi_risk bmi =
     (if bmi < 18.5 then (1.2, Some (Underweight_BMI bmi))
      else if 18.5 \<le> bmi \<and> bmi < 25 then (1.0, None)
      else if 25 \<le> bmi \<and> bmi < 30 then (1.1, Some (Overweight_BMI bmi))
      else if 30 \<le> bmi \<and> bmi < 35 then (1.3, Some (Obese_Class_I_BMI bmi))
      else if 35 \<le> bmi \<and> bmi < 40 then (2.0, Some (Obese_Class_II_BMI bmi))
      else (3.0, Some (Obese_Class_III_BMI bmi)))"

subsection \<open>Medical risk\<close>

text \<open>
  The inner loop of \<open>_assess_medical_risk\<close>: the categories in the table's order, the
  first category that holds the condition wins.
\<close>

fun find_condition :: "(string \<times> rule_table) list \<Rightarrow> string \<Rightarrow> real option" where
  "find_condition [] condition = None"
| "find_condition ((category_name, category_data) # rest) condition =
     (case category_data condition of
        Some multiplier \<Rightarrow> Some multiplier
      | None \<Rightarrow> find_condition rest condition)"

text \<open>
  The outer loop, over the declared conditions, with the running multiplier and the list
  of factors. The table is read inside the loop, so a missing table raises only when a
  condition is declared.
\<close>

fun medical_conditions_loop ::
  "(string \<times> rule_table) list option \<Rightarrow> string list \<Rightarrow> real \<times> risk_factor list
     \<Rightarrow> py_error + (real \<times> risk_factor list)" where
  "medical_conditions_loop table [] acc = Inr acc"
| "medical_conditions_loop table (condition # rest) (medical_multiplier, risk_factors) =
     (case table of
        None \<Rightarrow> Inl KeyError
      | Some categories \<Rightarrow>
          (case find_condition categories condition of
             Some multiplier \<Rightarrow>
               medical_conditions_loop table rest
                 (medical_multiplier * multiplier,
                  risk_factors @ [Medical_condition condition multiplier])
           | None \<Rightarrow>
               medical_conditions_loop table rest
                 (medical_multiplier * 1.5,
                  risk_factors @ [Medical_unknown_condition condition])))"

definition bmi_assessment ::
  "medical_history \<Rightarrow> real \<times> risk_factor list \<Rightarrow> py_error + (real \<times> risk_factor list)" where
  "bmi_assessment mh acc =
     (case acc of (medical_multiplier, risk_factors) \<Rightarrow>
        (case height mh of
           None \<Rightarrow> Inr acc
         | Some h \<Rightarrow>
             (case weight mh of
                None \<Rightarrow> Inr acc
              | Some w \<Rightarrow>
                  (case calculate_bmi w h of
                     Inl e \<Rightarrow> Inl e
                   | Inr bmi \<Rightarrow>
                       (case assess_bmi_risk bmi of
                          (bmi_multiplier, bmi_factor) \<Rightarrow>
                            Inr (medical_multiplier * bmi_multiplier,
                                 (case bmi_factor of
                                    Some f \<Rightarrow> risk_factors @ [f]
                                  | None \<Rightarrow> risk_factors)))))))"

definition medical_age_adjustment ::
  "medical_history \<Rightarrow> real \<times> risk_factor list \<Rightarrow> real \<times> risk_factor list" where
  "medical_age_adjustment mh acc =
     (case acc of (medical_multiplier, risk_factors) \<Rightarrow>
        (let declared = (case conditions mh of Some cs \<Rightarrow> cs | None \<Rightarrow> []);
             age_read = (case mh_age mh of Some a \<Rightarrow> a | None \<Rightarrow> 30)
         in if length declared > 0 \<and> age_read > 60
            then (medical_multiplier * 1.1, risk_factors @ [Medical_age_adjustment 1.1])
            else acc))"

definition assess_medical_risk ::
  "underwriting_rules \<Rightarrow> medical_history \<Rightarrow> py_error + (real \<times> risk_factor list)" where
  "assess_medical_risk rules mh =
     (let declared = (case conditions mh of Some cs \<Rightarrow> cs | None \<Rightarrow> [])
      in case medical_conditions_loop (medical_conditions rules) declared (1.0, []) of
           Inl e \<Rightarrow> Inl e
         | Inr acc \<Rightarrow>
             (case bmi_assessment mh acc of
                Inl e \<Rightarrow> Inl e
              | Inr acc2 \<Rightarrow> Inr (medical_age_adjustment mh acc2)))"

subsection \<open>Combination and decision\<close>

definition combine_risk_factors :: "real \<Rightarrow> real \<Rightarrow> real \<Rightarrow> real" where
  "combine_risk_factors medical_risk lifestyle_risk occupation_risk =
     (let combined_risk = medical_risk * lifestyle_risk * occupation_risk
      in min combined_risk 10.0)"

definition make_underwriting_decision ::
  "real \<Rightarrow> real \<Rightarrow> int \<Rightarrow> risk_factor list \<Rightarrow> UnderwritingDecision \<times> int" where
  "make_underwriting_decision overall_risk financial_risk coverage_amount risk_factors =
     (if financial_risk \<ge> 3.0 then (DECLINED, 0)
      else if overall_risk \<le> 0.95 then (APPROVED_PREFERRED, coverage_amount)
      else if overall_risk \<le> 2.0 then
        (if overall_risk \<le> 1.2 then (APPROVED_STANDARD, coverage_amount)
         else (APPROVED_SUBSTANDARD, min coverage_amount 2000000))
      else if overall_risk \<le> 4.0 then (APPROVED_SUBSTANDARD, min coverage_amount 500000)
      else (DECLINED, 0))"

subsection \<open>Lifestyle risk\<close>

definition smoking_assessment ::
  "underwriting_rules \<Rightarrow> lifestyle_info \<Rightarrow> py_error + (real \<times> risk_factor list)" where
  "smoking_assessment rules info =
     (let status = (case smoking_status info of Some s \<Rightarrow> s | None \<Rightarrow> ''non_smoker'')
      in if status \<noteq> ''non_smoker'' then
           (case lifestyle_factors rules of
              None \<Rightarrow> Inl KeyError
            | Some lf \<Rightarrow>
                (case smoking lf of
                   None \<Rightarrow> Inl KeyError
                 | Some smoking_rules \<Rightarrow>
                     (case smoking_rules status of
                        Some smoking_mult \<Rightarrow>
                          Inr (1.0 * smoking_mult, [Smoking status smoking_mult])
                      | None \<Rightarrow> Inr (1.0, []))))
         else Inr (1.0, []))"

definition alcohol_assessment ::
  "underwriting_rules \<Rightarrow> lifestyle_info \<Rightarrow> real \<times> risk_factor list
     \<Rightarrow> py_error + (real \<times> risk_factor list)" where
  "alcohol_assessment rules info acc =
     (case acc of (lifestyle_multiplier, risk_factors) \<Rightarrow>
        (let use = (case alcohol_use info of Some s \<Rightarrow> s | None \<Rightarrow> ''moderate_use'')
         in case lifestyle_factors rules of
              None \<Rightarrow> Inl KeyError
            | Some lf \<Rightarrow>
                (case alcohol lf of
                   None \<Rightarrow> Inl KeyError
                 | Some alcohol_rules \<Rightarrow>
                     (case alcohol_rules use of
                        Some alcohol_mult \<Rightarrow>
                          Inr (lifestyle_multiplier * alcohol_mult,
                               if alcohol_mult > 1.0
                               then risk_factors @ [Alcohol_use use alcohol_mult]
                               else risk_factors)
                      | None \<Rightarrow> Inr acc))))"

fun hazardous_activities_loop ::
  "rule_table \<Rightarrow> string list \<Rightarrow> real \<times> risk_factor list \<Rightarrow> real \<times> risk_factor list" where
  "hazardous_activities_loop hazardous_rules [] acc = acc"
| "hazardous_activities_loop hazardous_rules (activity # rest) (lifestyle_multiplier, risk_factors) =
     (case hazardous_rules activity of
        Some activity_mult \<Rightarrow>
          hazardous_activities_loop hazardous_rules rest
            (lifestyle_multiplier * activity_mult,
             risk_factors @ [Hazardous_activity activity activity_mult])
      | None \<Rightarrow>
          hazardous_activities_loop hazardous_rules rest (lifestyle_multiplier, risk_factors))"

definition assess_lifestyle_risk ::
  "underwriting_rules \<Rightarrow> lifestyle_info \<Rightarrow> py_error + (real \<times> risk_factor list)" where
  "assess_lifestyle_risk rules info =
     (case smoking_assessment rules info of
        Inl e \<Rightarrow> Inl e
      | Inr acc1 \<Rightarrow>
          (case alcohol_assessment rules info acc1 of
             Inl e \<Rightarrow> Inl e
           | Inr acc2 \<Rightarrow>
               (let activities =
                      (case hazardous_activities info of Some xs \<Rightarrow> xs | None \<Rightarrow> [])
                in case lifestyle_factors rules of
                     None \<Rightarrow> Inl KeyError
                   | Some lf \<Rightarrow>
                       (case hazardous_activities_rules lf of
                          None \<Rightarrow> Inl KeyError
                        | Some hazardous_rules \<Rightarrow>
                            Inr (hazardous_activities_loop hazardous_rules activities acc2)))))"

subsection \<open>Occupation risk\<close>

definition class_key :: "int \<Rightarrow> string" where
  "class_key cls =
     (if cls = 1 then ''class_1_professional''
      else if cls = 2 then ''class_2_standard''
      else if cls = 3 then ''class_3_skilled''
      else if cls = 4 then ''class_4_manual''
      else ''class_5_hazardous'')"

definition assess_occupation_risk ::
  "underwriting_rules \<Rightarrow> occupation_info \<Rightarrow> int \<Rightarrow> py_error + (real \<times> risk_factor list)" where
  "assess_occupation_risk rules info applicant_age =
     (let cls = (case occupation_class info of Some c \<Rightarrow> c | None \<Rightarrow> 2);
          title = (case occupation_title info of Some t \<Rightarrow> t | None \<Rightarrow> ''Unknown'')
      in case occupation_factors rules of
           None \<Rightarrow> Inl KeyError
         | Some occupation_rules \<Rightarrow>
             (let (occupation_multiplier, risk_factors) =
                    (case occupation_rules (class_key cls) of
                       Some m \<Rightarrow> (m, if m \<noteq> 1.0 then [Occupation title cls m] else [])
                     | None \<Rightarrow> (1.0, []))
              in if cls \<ge> 4 \<and> applicant_age > 50
                 then Inr (occupation_multiplier * 1.2,
                           risk_factors @ [Age_hazardous_occupation_adjustment 1.2])
                 else Inr (occupation_multiplier, risk_factors)))"

subsection \<open>Financial capacity\<close>

text \<open>
  \<open>_assess_financial_capacity\<close> in its three steps: the income-based limit of the
  product, the net-worth requirement of high coverage amounts, the debt-to-income
  adjustment. Each step takes the score and the factors of the step before.
\<close>

definition income_based_limit ::
  "financial_underwriting_rules \<Rightarrow> real \<Rightarrow> int \<Rightarrow> string
     \<Rightarrow> py_error + (real \<times> risk_factor list)" where
  "income_based_limit financial_rules income coverage_amount product_type =
     (if product_type = ''term_life'' \<or> product_type = ''whole_life'' then
        (case life_insurance_max_coverage_multiple financial_rules of
           None \<Rightarrow> Inl KeyError
         | Some max_income_multiple \<Rightarrow>
             (let max_coverage_by_income = income * max_income_multiple
              in if real_of_int coverage_amount > max_coverage_by_income
                 then Inr (2.0, [Coverage_exceeds_income_limit max_income_multiple])
                 else Inr (1.0, [])))
      else if product_type = ''disability_income'' then
        (case disability_insurance_max_benefit_percentage financial_rules of
           None \<Rightarrow> Inl KeyError
         | Some max_benefit_pct \<Rightarrow>
             (let monthly_income = income / 12;
                  max_monthly_benefit = monthly_income * max_benefit_pct;
                  monthly_coverage = real_of_int coverage_amount
              in if monthly_coverage > max_monthly_benefit
                 then Inr (2.0, [Monthly_benefit_exceeds_income (max_benefit_pct * 100)])
                 else Inr (1.0, [])))
      else Inr (1.0, []))"

definition net_worth_requirement ::
  "financial_underwriting_rules \<Rightarrow> real \<Rightarrow> int \<Rightarrow> real \<times> risk_factor list
     \<Rightarrow> py_error + (real \<times> risk_factor list)" where
  "net_worth_requirement financial_rules worth coverage_amount acc =
     (case acc of (score, risk_factors) \<Rightarrow>
        (if coverage_amount \<ge> 1000000 then
           (case net_worth_requirements financial_rules of
              None \<Rightarrow> Inl KeyError
            | Some net_worth_rules \<Rightarrow>
                (if coverage_amount \<ge> 5000000 then
                   (case coverage_5m_plus net_worth_rules of
                      None \<Rightarrow> Inl KeyError
                    | Some min_net_worth \<Rightarrow>
                        (if worth < min_net_worth
                         then Inr (3.0, risk_factors @
                                [Net_worth_below_requirement min_net_worth coverage_amount])
                         else Inr acc))
                 else if coverage_amount \<ge> 1000000 then
                   (case coverage_1m_plus net_worth_rules of
                      None \<Rightarrow> Inl KeyError
                    | Some min_net_worth \<Rightarrow>
                        (if worth < min_net_worth
                         then Inr (2.0, risk_factors @
                                [Net_worth_below_requirement min_net_worth coverage_amount])
                         else Inr acc))
                 else Inr acc))
         else Inr acc))"

definition debt_to_income_assessment ::
  "real \<Rightarrow> real \<Rightarrow> real \<times> risk_factor list \<Rightarrow> py_error + (real \<times> risk_factor list)" where
  "debt_to_income_assessment income debt acc =
     (case acc of (score, risk_factors) \<Rightarrow>
        (if income > 0 then
           (case true_div debt income of
              Inl e \<Rightarrow> Inl e
            | Inr debt_to_income \<Rightarrow>
                (if debt_to_income > 0.4
                 then Inr (score * 1.3,
                           risk_factors @ [High_debt_to_income_ratio debt_to_income])
                 else Inr acc))
         else Inr acc))"

definition assess_financial_capacity ::
  "underwriting_rules \<Rightarrow> financial_info \<Rightarrow> int \<Rightarrow> string
     \<Rightarrow> py_error + (real \<times> risk_factor list)" where
  "assess_financial_capacity rules info coverage_amount product_type =
     (let income = (case annual_income info of Some x \<Rightarrow> x | None \<Rightarrow> 0);
          worth = (case net_worth info of Some x \<Rightarrow> x | None \<Rightarrow> 0)
      in case financial_underwriting rules of
           None \<Rightarrow> Inl KeyError
         | Some financial_rules \<Rightarrow>
             (case income_based_limit financial_rules income coverage_amount product_type of
                Inl e \<Rightarrow> Inl e
              | Inr acc1 \<Rightarrow>
                  (case net_worth_requirement financial_rules worth coverage_amount acc1 of
                     Inl e \<Rightarrow> Inl e
                   | Inr acc2 \<Rightarrow>
                       (let debt = (case total_debt info of Some x \<Rightarrow> x | None \<Rightarrow> 0)
                        in debt_to_income_assessment income debt acc2))))"

subsection \<open>The comprehensive assessment\<close>

text \<open>
  \<open>perform_comprehensive_risk_assessment\<close>. The four assessments run in the source's
  order and the first error ends the call. The underwriting notes are presentation text
  and are left out of the result.
\<close>

definition perform_comprehensive_risk_assessment ::
  "underwriting_rules \<Rightarrow> applicant_data \<Rightarrow> string \<Rightarrow> int \<Rightarrow> py_error + RiskAssessment" where
  "perform_comprehensive_risk_assessment rules applicant product_type coverage_amount =
     (case assess_medical_risk rules
             (case medical_history applicant of Some h \<Rightarrow> h | None \<Rightarrow> empty_medical_history) of
        Inl e \<Rightarrow> Inl e
      | Inr (medical_risk, medical_factors) \<Rightarrow>
     (case assess_lifestyle_risk rules
             (case lifestyle applicant of Some l \<Rightarrow> l | None \<Rightarrow> empty_lifestyle_info) of
        Inl e \<Rightarrow> Inl e
      | Inr (lifestyle_risk, lifestyle_factors_found) \<Rightarrow>
     (case assess_occupation_risk rules
             (case occupation applicant of Some oc \<Rightarrow> oc | None \<Rightarrow> empty_occupation_info)
             (case age applicant of Some a \<Rightarrow> a | None \<Rightarrow> 30) of
        Inl e \<Rightarrow> Inl e
      | Inr (occupation_risk, occupation_factors_found) \<Rightarrow>
     (case assess_financial_capacity rules
             (case financial_info applicant of Some f \<Rightarrow> f | None \<Rightarrow> empty_financial_info)
             coverage_amount product_type of
        Inl e \<Rightarrow> Inl e
      | Inr (financial_risk, financial_factors) \<Rightarrow>
          (let found = medical_factors @ lifestyle_factors_found
                         @ occupation_factors_found @ financial_factors;
               overall_risk = combine_risk_factors medical_risk lifestyle_risk occupation_risk;
               (decision, max_coverage) =
                 make_underwriting_decision overall_risk financial_risk coverage_amount found
           in Inr \<lparr>overall_risk_multiplier = overall_risk,
                   medical_risk_multiplier = medical_risk,
                   lifestyle_risk_multiplier = lifestyle_risk,
                   occupation_risk_multiplier = occupation_risk,
                   financial_risk_score = financial_risk,
                   underwriting_decision = decision,
                   maximum_coverage = max_coverage,
                   risk_factors_identified = found\<rparr>)))))"

section \<open>actuarial\_calculator.py\<close>

subsection \<open>The tables (data/mortality\_tables.json, data/product\_definitions.json)\<close>

text \<open>
  A mortality table is keyed by the decimal string of an age; the code reads it at
  \<open>str(current_age)\<close> only, so the model keys it by the age itself.
\<close>

type_synonym cso_table = "int \<rightharpoonup> real"

record mortality_tables =
  CSO_2017 :: "(string \<rightharpoonup> cso_table) option"
  discount_rates :: "(string \<rightharpoonup> real) option"

text \<open>
  A product definition; every field is read with \<open>product[key]\<close>, so each one may be
  absent.
\<close>

record product =
  min_age :: "real option"
  max_age :: "real option"
  min_coverage :: "real option"
  max_coverage :: "real option"
  terms :: "int list option"
  min_monthly_benefit :: "real option"
  max_monthly_benefit :: "real option"
  expense_load :: "real option"
  profit_margin :: "real option"
  commission :: "real option"

record product_definitions =
  products :: "(string \<rightharpoonup> product) option"
  reserve_factors :: "(string \<rightharpoonup> real) option"

text \<open>
  The disability tables of data/morbidity\_tables.json: an occupation class holds its
  name and its rates by age (in the file's order, which decides ties of the closest age)
  and gender; a waiting period entry is modelled by its benefit percentage.
\<close>

record occupation_class_data =
  occ_name :: "string option"
  rates :: "(int \<times> (string \<rightharpoonup> real)) list option"

record morbidity_tables =
  occupation_classes :: "(int \<rightharpoonup> occupation_class_data) option"
  waiting_periods_disability :: "(string \<rightharpoonup> real) option"

datatype breakdown_value = Number real | Text string

record QuoteResult =
  gross_premium :: real
  net_premium :: real
  quote_expense_load :: real
  quote_profit_margin :: real
  quote_commission :: real
  reserves :: real
  risk_multiplier :: real
  breakdown :: "(string \<times> breakdown_value) list"

record risk_factors_dict =
  rf_medical_conditions :: "string list option"
  rf_smoking_status :: "string option"
  rf_hazardous_activities :: "string list option"

definition empty_risk_factors :: risk_factors_dict where
  "empty_risk_factors =
     \<lparr>rf_medical_conditions = None, rf_smoking_status = None,
      rf_hazardous_activities = None\<rparr>"

subsection \<open>Present values\<close>

text \<open>\<open>cso_table.get(str(current_age), cso_table['80'])\<close>: the default is evaluated
  before the lookup, so a table without the key 80 raises.\<close>

definition mortality_rate_at :: "cso_table \<Rightarrow> int \<Rightarrow> py_error + real" where
  "mortality_rate_at table current_age =
     (case table 80 of
        None \<Rightarrow> Inl KeyError
      | Some fallback \<Rightarrow>
          Inr (case table current_age of Some rate \<Rightarrow> rate | None \<Rightarrow> fallback))"

text \<open>\<open>x / ((1 + discount_rate) ** year)\<close>\<close>

definition discounted :: "real \<Rightarrow> real \<Rightarrow> nat \<Rightarrow> py_error + real" where
  "discounted x discount_rate year = true_div x ((1 + discount_rate) ^ year)"

fun mortality_cost_loop ::
  "cso_table \<Rightarrow> real \<Rightarrow> int \<Rightarrow> nat list \<Rightarrow> real \<Rightarrow> py_error + real" where
  "mortality_cost_loop table discount_rate start_age [] total_cost = Inr total_cost"
| "mortality_cost_loop table discount_rate start_age (year # rest) total_cost =
     (let current_age = min (start_age + int year) 80
      in case mortality_rate_at table current_age of
           Inl e \<Rightarrow> Inl e
         | Inr mortality_rate \<Rightarrow>
             (case discounted 1 discount_rate year of
                Inl e \<Rightarrow> Inl e
              | Inr pv_factor \<Rightarrow>
                  mortality_cost_loop table discount_rate start_age rest
                    (total_cost + mortality_rate * pv_factor)))"

definition calculate_mortality_cost ::
  "mortality_tables \<Rightarrow> int \<Rightarrow> string \<Rightarrow> int \<Rightarrow> py_error + real" where
  "calculate_mortality_cost tables start_age sex term =
     (case CSO_2017 tables of
        None \<Rightarrow> Inl KeyError
      | Some by_gender \<Rightarrow>
          (case by_gender sex of
             None \<Rightarrow> Inl KeyError
           | Some table \<Rightarrow>
               (case discount_rates tables of
                  None \<Rightarrow> Inl KeyError
                | Some rates_by_name \<Rightarrow>
                    (case rates_by_name ''standard'' of
                       None \<Rightarrow> Inl KeyError
                     | Some discount_rate \<Rightarrow>
                         mortality_cost_loop table discount_rate start_age
                           [0..<nat term] 0.0))))"

definition calculate_benefit_present_value ::
  "int \<Rightarrow> real \<Rightarrow> int \<Rightarrow> string \<Rightarrow> int \<Rightarrow> real" where
  "calculate_benefit_present_value coverage mortality_cost start_age sex term =
     real_of_int coverage * mortality_cost"

fun premium_present_value_loop ::
  "cso_table \<Rightarrow> real \<Rightarrow> int \<Rightarrow> nat list \<Rightarrow> real \<times> real \<Rightarrow> py_error + real" where
  "premium_present_value_loop table discount_rate start_age [] (pv_premiums, survival_prob) =
     Inr pv_premiums"
| "premium_present_value_loop table discount_rate start_age (year # rest)
       (pv_premiums, survival_prob) =
     (let current_age = min (start_age + int year) 80
      in case mortality_rate_at table current_age of
           Inl e \<Rightarrow> Inl e
         | Inr mortality_rate \<Rightarrow>
             (case discounted survival_prob discount_rate year of
                Inl e \<Rightarrow> Inl e
              | Inr pv_factor \<Rightarrow>
                  premium_present_value_loop table discount_rate start_age rest
                    (pv_premiums + pv_factor, survival_prob * (1 - mortality_rate))))"

definition calculate_premium_present_value ::
  "mortality_tables \<Rightarrow> int \<Rightarrow> int \<Rightarrow> string \<Rightarrow> py_error + real" where
  "calculate_premium_present_value tables term start_age sex =
     (case discount_rates tables of
        None \<Rightarrow> Inl KeyError
      | Some rates_by_name \<Rightarrow>
          (case rates_by_name ''standard'' of
             None \<Rightarrow> Inl KeyError
           | Some discount_rate \<Rightarrow>
               (case CSO_2017 tables of
                  None \<Rightarrow> Inl KeyError
                | Some by_gender \<Rightarrow>
                    (case by_gender sex of
                       None \<Rightarrow> Inl KeyError
                     | Some table \<Rightarrow>
                         premium_present_value_loop table discount_rate start_age
                           [0..<nat term] (0.0, 1.0)))))"

fun disability_present_value_loop ::
  "real \<Rightarrow> real \<Rightarrow> real \<Rightarrow> nat list \<Rightarrow> real \<Rightarrow> py_error + real" where
  "disability_present_value_loop annual_benefit morbidity_rate discount_rate [] pv_benefits =
     Inr pv_benefits"
| "disability_present_value_loop annual_benefit morbidity_rate discount_rate (year # rest)
       pv_benefits =
     (case discounted 1 discount_rate year of
        Inl e \<Rightarrow> Inl e
      | Inr pv_factor \<Rightarrow>
          disability_present_value_loop annual_benefit morbidity_rate discount_rate rest
            (pv_benefits + annual_benefit * morbidity_rate * pv_factor))"

text \<open>
  \<open>_calculate_disability_present_value\<close>. A benefit period other than \<open>to_age_65\<close> is
  read with Python's built-in \<open>int(benefit_period.split('_')[0])\<close>; that conversion is
  the parameter \<open>leading_int\<close>, \<open>None\<close> where it raises \<open>ValueError\<close>.
\<close>

definition calculate_disability_present_value ::
  "(string \<Rightarrow> int option) \<Rightarrow> mortality_tables \<Rightarrow> int \<Rightarrow> real \<Rightarrow> int \<Rightarrow> string
     \<Rightarrow> py_error + real" where
  "calculate_disability_present_value leading_int tables monthly_benefit morbidity_rate
       start_age benefit_period =
     (case discount_rates tables of
        None \<Rightarrow> Inl KeyError
      | Some rates_by_name \<Rightarrow>
          (case rates_by_name ''standard'' of
             None \<Rightarrow> Inl KeyError
           | Some discount_rate \<Rightarrow>
               (case (if benefit_period = ''to_age_65'' then Some (max (65 - start_age) 0)
                      else leading_int benefit_period) of
                  None \<Rightarrow> Inl ValueError
                | Some years \<Rightarrow>
                    (let annual_benefit = real_of_int (monthly_benefit * 12)
                     in disability_present_value_loop annual_benefit morbidity_rate
                          discount_rate [0..<nat years] 0.0))))"

subsection \<open>The calculator's own risk multiplier\<close>

text \<open>
  \<open>_calculate_risk_multiplier\<close>. A condition is looked up in the categories only when
  it is itself a key of the category table
  (\<open>if condition in self.underwriting_rules['medical_conditions']\<close>); the search of the
  categories is the one of \<^const>\<open>find_condition\<close>.
\<close>

fun risk_conditions_loop ::
  "(string \<times> rule_table) list option \<Rightarrow> string list \<Rightarrow> real \<Rightarrow> py_error + real" where
  "risk_conditions_loop table [] multiplier = Inr multiplier"
| "risk_conditions_loop table (condition # rest) multiplier =
     (case table of
        None \<Rightarrow> Inl KeyError
      | Some categories \<Rightarrow>
          (if condition \<in> set (map fst categories) then
             (case find_condition categories condition of
                Some m \<Rightarrow> risk_conditions_loop table rest (multiplier * m)
              | None \<Rightarrow> risk_conditions_loop table rest multiplier)
           else risk_conditions_loop table rest multiplier))"

fun risk_activities_loop :: "rule_table \<Rightarrow> string list \<Rightarrow> real \<Rightarrow> real" where
  "risk_activities_loop hazardous [] multiplier = multiplier"
| "risk_activities_loop hazardous (activity # rest) multiplier =
     (case hazardous activity of
        Some m \<Rightarrow> risk_activities_loop hazardous rest (multiplier * m)
      | None \<Rightarrow> risk_activities_loop hazardous rest multiplier)"

definition calculate_risk_multiplier ::
  "underwriting_rules \<Rightarrow> risk_factors_dict \<Rightarrow> py_error + real" where
  "calculate_risk_multiplier rules factors =
     (case (case rf_medical_conditions factors of
              None \<Rightarrow> Inr 1.0
            | Some cs \<Rightarrow> risk_conditions_loop (medical_conditions rules) cs 1.0) of
        Inl e \<Rightarrow> Inl e
      | Inr m1 \<Rightarrow>
     (case (case rf_smoking_status factors of
              None \<Rightarrow> Inr m1
            | Some status \<Rightarrow>
                (case lifestyle_factors rules of
                   None \<Rightarrow> Inl KeyError
                 | Some lf \<Rightarrow>
                     (case smoking lf of
                        None \<Rightarrow> Inl KeyError
                      | Some smoking_rules \<Rightarrow>
                          (case smoking_rules status of
                             Some m \<Rightarrow> Inr (m1 * m)
                           | None \<Rightarrow> Inr m1)))) of
        Inl e \<Rightarrow> Inl e
      | Inr m2 \<Rightarrow>
          (case rf_hazardous_activities factors of
             None \<Rightarrow> Inr m2
           | Some activities \<Rightarrow>
               (case lifestyle_factors rules of
                  None \<Rightarrow> Inl KeyError
                | Some lf \<Rightarrow>
                    (case hazardous_activities_rules lf of
                       None \<Rightarrow> Inl KeyError
                     | Some hazardous \<Rightarrow>
                         Inr (risk_activities_loop hazardous activities m2))))))"

subsection \<open>Reserves, waiting periods, closest age\<close>

definition calculate_policy_reserves ::
  "product_definitions \<Rightarrow> int \<Rightarrow> string \<Rightarrow> py_error + real" where
  "calculate_policy_reserves definitions coverage_amount product_type =
     (case reserve_factors definitions of
        None \<Rightarrow> Inl KeyError
      | Some factors \<Rightarrow>
          (let reserve_factor = (case factors product_type of Some f \<Rightarrow> f | None \<Rightarrow> 0.05)
           in Inr (real_of_int coverage_amount * reserve_factor)))"

definition get_waiting_period_adjustment :: "morbidity_tables \<Rightarrow> int \<Rightarrow> py_error + real" where
  "get_waiting_period_adjustment morbidity waiting_days =
     (case waiting_periods_disability morbidity of
        None \<Rightarrow> Inl KeyError
      | Some waiting_periods \<Rightarrow>
          (case waiting_periods
                  (if waiting_days \<le> 30 then ''30_days''
                   else if waiting_days \<le> 90 then ''90_days''
                   else if waiting_days \<le> 180 then ''180_days''
                   else ''365_days'') of
             None \<Rightarrow> Inl KeyError
           | Some benefit_percentage \<Rightarrow> Inr benefit_percentage))"

text \<open>\<open>min(ages, key=lambda x: abs(x - age))\<close>: the first age of least distance;
  \<open>ValueError\<close> on an empty table.\<close>

fun closest_of :: "int \<Rightarrow> int \<Rightarrow> int list \<Rightarrow> int" where
  "closest_of target best [] = best"
| "closest_of target best (x # xs) =
     (if \<bar>x - target\<bar> < \<bar>best - target\<bar> then closest_of target x xs
      else closest_of target best xs)"

definition find_closest_age :: "int \<Rightarrow> (int \<times> 'a) list \<Rightarrow> py_error + int" where
  "find_closest_age target age_data =
     (case map fst age_data of
        [] \<Rightarrow> Inl ValueError
      | x # xs \<Rightarrow> Inr (closest_of target x xs))"

subsection \<open>Validation\<close>

text \<open>
  The validators raise \<open>ValueError\<close> with a message that reads both bounds again, so a
  missing upper bound is a \<open>KeyError\<close> also when the lower bound already fails. The
  result is the error raised, \<open>None\<close> when the inputs pass.
\<close>

definition out_of_range :: "real \<Rightarrow> real option \<Rightarrow> real option \<Rightarrow> py_error option" where
  "out_of_range x lower upper =
     (case lower of
        None \<Rightarrow> Some KeyError
      | Some lo \<Rightarrow>
          (case upper of
             None \<Rightarrow> Some KeyError
           | Some hi \<Rightarrow> (if x < lo \<or> x > hi then Some ValueError else None)))"

definition validate_life_insurance_inputs ::
  "int \<Rightarrow> int \<Rightarrow> int \<Rightarrow> product \<Rightarrow> py_error option" where
  "validate_life_insurance_inputs applicant_age coverage term prd =
     (case out_of_range (real_of_int applicant_age) (min_age prd) (max_age prd) of
        Some e \<Rightarrow> Some e
      | None \<Rightarrow>
          (case out_of_range (real_of_int coverage) (min_coverage prd) (max_coverage prd) of
             Some e \<Rightarrow> Some e
           | None \<Rightarrow>
               (case terms prd of
                  None \<Rightarrow> None
                | Some ts \<Rightarrow> (if term \<notin> set ts then Some ValueError else None))))"

definition validate_disability_inputs ::
  "morbidity_tables \<Rightarrow> int \<Rightarrow> int \<Rightarrow> int \<Rightarrow> product \<Rightarrow> py_error option" where
  "validate_disability_inputs morbidity applicant_age benefit occ_class prd =
     (case out_of_range (real_of_int applicant_age) (min_age prd) (max_age prd) of
        Some e \<Rightarrow> Some e
      | None \<Rightarrow>
          (case out_of_range (real_of_int benefit)
                  (min_monthly_benefit prd) (max_monthly_benefit prd) of
             Some e \<Rightarrow> Some e
           | None \<Rightarrow>
               (case occupation_classes morbidity of
                  None \<Rightarrow> Some KeyError
                | Some classes \<Rightarrow>
                    (if classes occ_class = None then Some ValueError else None))))"

subsection \<open>Premiums\<close>

text \<open>
  The premium functions are long sequences of steps, each of which may raise. They are
  written with two combinators: \<open>subscript\<close> is \<open>d[k]\<close> on the result of the lookup
  (\<open>KeyError\<close> when the key is absent), and \<open>and_then\<close> passes the value of a step to
  the rest of the function, or ends the call with the step's error.
\<close>

definition subscript :: "'a option \<Rightarrow> py_error + 'a" where
  "subscript entry = (case entry of None \<Rightarrow> Inl KeyError | Some v \<Rightarrow> Inr v)"

definition and_then :: "py_error + 'a \<Rightarrow> ('a \<Rightarrow> py_error + 'b) \<Rightarrow> py_error + 'b" where
  "and_then step rest = (case step of Inl e \<Rightarrow> Inl e | Inr v \<Rightarrow> rest v)"

definition checked :: "py_error option \<Rightarrow> py_error + unit" where
  "checked outcome = (case outcome of Some e \<Rightarrow> Inl e | None \<Rightarrow> Inr ())"

text \<open>\<open>net_premium = benefit_pv / premium_pv if premium_pv > 0 else 0\<close>, the same
  expression in both premium functions.\<close>

definition net_premium_division :: "real \<Rightarrow> real \<Rightarrow> py_error + real" where
  "net_premium_division benefit_pv premium_pv =
     (if premium_pv > 0 then true_div benefit_pv premium_pv else Inr 0)"

text \<open>
  \<open>calculate_life_insurance_premium\<close>. \<open>risk_factors=None\<close> is the empty dictionary.
  The explanation text is left out.
\<close>

definition calculate_life_insurance_premium ::
  "product_definitions \<Rightarrow> mortality_tables \<Rightarrow> underwriting_rules \<Rightarrow> int \<Rightarrow> string \<Rightarrow> int
     \<Rightarrow> int \<Rightarrow> string \<Rightarrow> risk_factors_dict option \<Rightarrow> py_error + QuoteResult" where
  "calculate_life_insurance_premium definitions tables rules applicant_age sex
       coverage_amount policy_term product_type risk_factors =
     (let factors = (case risk_factors of Some f \<Rightarrow> f | None \<Rightarrow> empty_risk_factors) in
      and_then (subscript (products definitions)) (\<lambda>by_type.
      and_then (subscript (by_type product_type)) (\<lambda>prd.
      and_then (checked (validate_life_insurance_inputs applicant_age coverage_amount
                           policy_term prd)) (\<lambda>_.
      and_then (calculate_mortality_cost tables applicant_age sex policy_term)
        (\<lambda>mortality_cost.
      let benefit_pv = calculate_benefit_present_value coverage_amount mortality_cost
                         applicant_age sex policy_term in
      and_then (calculate_premium_present_value tables policy_term applicant_age sex)
        (\<lambda>premium_pv.
      and_then (net_premium_division benefit_pv premium_pv) (\<lambda>net.
      and_then (calculate_risk_multiplier rules factors) (\<lambda>multiplier.
      let adjusted_net_premium = net * multiplier in
      and_then (subscript (expense_load prd)) (\<lambda>expense.
      and_then (subscript (profit_margin prd)) (\<lambda>profit.
      and_then (subscript (commission prd)) (\<lambda>comm.
      let gross = adjusted_net_premium * (1 + expense + profit + comm) in
      and_then (calculate_policy_reserves definitions coverage_amount product_type)
        (\<lambda>policy_reserves.
      and_then (true_div (gross * expense) (1 + expense + profit + comm))
        (\<lambda>expense_loading.
      and_then (true_div (gross * profit) (1 + expense + profit + comm)) (\<lambda>profit_loading.
      and_then (true_div (gross * comm) (1 + expense + profit + comm)) (\<lambda>commission_loading.
      Inr \<lparr>gross_premium = gross,
                net_premium = net,
                quote_expense_load = expense,
                quote_profit_margin = profit,
                quote_commission = comm,
                reserves = policy_reserves,
                risk_multiplier = multiplier,
                breakdown =
                  [(''base_mortality_cost'', Number mortality_cost),
                   (''net_premium'', Number net),
                   (''risk_adjustment'', Number multiplier),
                   (''adjusted_net_premium'', Number adjusted_net_premium),
                   (''expense_loading'', Number expense_loading),
                   (''profit_margin'', Number profit_loading),
                   (''commission'', Number commission_loading),
                   (''policy_reserves'', Number policy_reserves),
                   (''annual_premium'',
                      Number (if product_type = ''term_life'' then gross * 12
                              else gross))]\<rparr>)))))))))))))))"

text \<open>
  \<open>calculate_disability_premium\<close>; \<open>leading_int\<close> is the parameter of
  \<^const>\<open>calculate_disability_present_value\<close>.
\<close>

definition calculate_disability_premium ::
  "(string \<Rightarrow> int option) \<Rightarrow> product_definitions \<Rightarrow> mortality_tables \<Rightarrow> morbidity_tables
     \<Rightarrow> int \<Rightarrow> string \<Rightarrow> int \<Rightarrow> int \<Rightarrow> string \<Rightarrow> int \<Rightarrow> py_error + QuoteResult" where
  "calculate_disability_premium leading_int definitions tables morbidity applicant_age sex
       occ_class monthly_benefit benefit_period waiting_period =
     (and_then (subscript (products definitions)) (\<lambda>by_type.
      and_then (subscript (by_type ''disability_income'')) (\<lambda>prd.
      and_then (checked (validate_disability_inputs morbidity applicant_age monthly_benefit
                           occ_class prd)) (\<lambda>_.
      and_then (subscript (occupation_classes morbidity)) (\<lambda>classes.
      and_then (subscript (classes occ_class)) (\<lambda>occ_data.
      and_then (subscript (rates occ_data)) (\<lambda>age_data.
      and_then (find_closest_age applicant_age age_data) (\<lambda>closest_age.
      and_then (subscript (map_of age_data closest_age)) (\<lambda>by_gender.
      and_then (subscript (by_gender sex)) (\<lambda>morbidity_rate.
      and_then (calculate_disability_present_value leading_int tables monthly_benefit
                  morbidity_rate applicant_age benefit_period) (\<lambda>benefit_pv.
      and_then (calculate_premium_present_value tables (65 - applicant_age) applicant_age sex)
        (\<lambda>premium_pv.
      and_then (net_premium_division benefit_pv premium_pv) (\<lambda>net.
      and_then (get_waiting_period_adjustment morbidity waiting_period)
        (\<lambda>benefit_percentage.
      let adjusted_net_premium = net * benefit_percentage in
      and_then (subscript (expense_load prd)) (\<lambda>expense.
      and_then (subscript (profit_margin prd)) (\<lambda>profit.
      and_then (subscript (commission prd)) (\<lambda>comm.
      let gross = adjusted_net_premium * (1 + expense + profit + comm) in
      and_then (calculate_policy_reserves definitions (monthly_benefit * 12)
                  ''disability_income'') (\<lambda>policy_reserves.
      and_then (subscript (occ_name occ_data)) (\<lambda>description.
      Inr \<lparr>gross_premium = gross,
           net_premium = net,
           quote_expense_load = expense,
           quote_profit_margin = profit,
           quote_commission = comm,
           reserves = policy_reserves,
           risk_multiplier = 1.0,
           breakdown =
             [(''base_morbidity_rate'', Number morbidity_rate),
              (''net_premium'', Number net),
              (''waiting_period_adjustment'', Number benefit_percentage),
              (''adjusted_net_premium'', Number adjusted_net_premium),
              (''monthly_premium'', Number gross),
              (''annual_premium'', Number (gross * 12)),
              (''occupation_class'', Number (real_of_int occ_class)),
              (''occupation_description'', Text description)]\<rparr>)))))))))))))))))))"

section \<open>regulatory\_engine.py\<close>

record ReserveCalculation =
  policy_reserves :: real
  unearned_premium_reserves :: real
  claims_reserves :: real
  total_reserves :: real
  solvency_margin :: real
  risk_based_capital :: real
  regulatory_requirements_met :: bool

text \<open>A policy of the portfolio: a dictionary read with \<open>policy.get\<close> and defaults.\<close>

record policy =
  policy_product_type :: "string option"
  policy_coverage_amount :: "real option"
  policy_annual_premium :: "real option"
  policy_remaining_years :: "int option"
  policy_current_age :: "int option"
  policy_gender :: "string option"
  policy_anniversary :: "string option"

text \<open>
  The dates of \<open>_calculate_unearned_premium_reserves\<close> are values of Python's
  \<open>datetime\<close> library, which is not part of the sources. The operations the code calls
  on them are the fields of a parameter: \<open>strptime\<close> with the format \<open>%Y-%m-%d\<close> and
  \<open>replace(year=...)\<close> (\<open>None\<close> where they raise \<open>ValueError\<close>), the year of a date,
  the comparison \<open>\<le>\<close> and the day count of a difference.
\<close>

record 'd calendar =
  strptime :: "string \<Rightarrow> 'd option"
  year_of :: "'d \<Rightarrow> int"
  replace_year :: "'d \<Rightarrow> int \<Rightarrow> 'd option"
  date_le :: "'d \<Rightarrow> 'd \<Rightarrow> bool"
  days_between :: "'d \<Rightarrow> 'd \<Rightarrow> int"

subsection \<open>The regulatory standards\<close>

definition minimum_reserve_ratios :: "string \<rightharpoonup> real" where
  "minimum_reserve_ratios =
     [''term_life'' \<mapsto> 0.02, ''whole_life'' \<mapsto> 0.15,
      ''disability_income'' \<mapsto> 0.25, ''critical_illness'' \<mapsto> 0.10]"

definition solvency_margin_life_insurance :: real where
  "solvency_margin_life_insurance = 0.04"

definition solvency_margin_disability_insurance :: real where
  "solvency_margin_disability_insurance = 0.08"

definition solvency_margin_critical_illness :: real where
  "solvency_margin_critical_illness = 0.06"

definition c1_asset_risk :: real where "c1_asset_risk = 0.003"

definition c2_insurance_risk :: real where "c2_insurance_risk = 0.015"

definition c3_interest_rate_risk :: real where "c3_interest_rate_risk = 0.001"

definition c4_business_risk :: real where "c4_business_risk = 0.003"

definition claims_reserve_factors :: "string \<rightharpoonup> real" where
  "claims_reserve_factors =
     [''term_life'' \<mapsto> 0.001, ''whole_life'' \<mapsto> 0.002,
      ''disability_income'' \<mapsto> 0.05, ''critical_illness'' \<mapsto> 0.01]"

subsection \<open>Reading a policy and the tables\<close>

definition product_type_of :: "policy \<Rightarrow> string" where
  "product_type_of p = (case policy_product_type p of Some t \<Rightarrow> t | None \<Rightarrow> ''term_life'')"

definition coverage_amount_of :: "policy \<Rightarrow> real" where
  "coverage_amount_of p = (case policy_coverage_amount p of Some c \<Rightarrow> c | None \<Rightarrow> 0)"

definition annual_premium_of :: "policy \<Rightarrow> real" where
  "annual_premium_of p = (case policy_annual_premium p of Some c \<Rightarrow> c | None \<Rightarrow> 0)"

definition remaining_years_of :: "policy \<Rightarrow> int" where
  "remaining_years_of p = (case policy_remaining_years p of Some n \<Rightarrow> n | None \<Rightarrow> 10)"

definition current_age_of :: "policy \<Rightarrow> int" where
  "current_age_of p = (case policy_current_age p of Some n \<Rightarrow> n | None \<Rightarrow> 35)"

definition gender_of :: "policy \<Rightarrow> string" where
  "gender_of p = (case policy_gender p of Some g \<Rightarrow> g | None \<Rightarrow> ''male'')"

text \<open>\<open>self.mortality_tables.get('discount_rates', {}).get('standard', 0.035)\<close>\<close>

definition standard_discount_rate :: "mortality_tables \<Rightarrow> real" where
  "standard_discount_rate tables =
     (case discount_rates tables of
        None \<Rightarrow> 0.035
      | Some by_name \<Rightarrow> (case by_name ''standard'' of Some r \<Rightarrow> r | None \<Rightarrow> 0.035))"

text \<open>\<open>self.mortality_tables.get('CSO_2017', {}).get(gender, {})\<close>\<close>

definition mortality_table_of :: "mortality_tables \<Rightarrow> string \<Rightarrow> cso_table" where
  "mortality_table_of tables sex =
     (case CSO_2017 tables of
        None \<Rightarrow> Map.empty
      | Some by_gender \<Rightarrow> (case by_gender sex of Some t \<Rightarrow> t | None \<Rightarrow> Map.empty))"

subsection \<open>Reserves of one policy\<close>

fun future_benefits_loop ::
  "cso_table \<Rightarrow> real \<Rightarrow> string \<Rightarrow> real \<Rightarrow> int \<Rightarrow> nat list \<Rightarrow> real \<Rightarrow> py_error + real" where
  "future_benefits_loop table discount_rate product_type coverage start_age [] benefit_pv =
     Inr benefit_pv"
| "future_benefits_loop table discount_rate product_type coverage start_age (year # rest)
       benefit_pv =
     (let current_age = min (start_age + int year) 80;
          mortality_rate = (case table current_age of Some r \<Rightarrow> r | None \<Rightarrow> 0.01)
      in case discounted 1 discount_rate year of
           Inl e \<Rightarrow> Inl e
         | Inr pv_factor \<Rightarrow>
             future_benefits_loop table discount_rate product_type coverage start_age rest
               (if product_type = ''critical_illness''
                then benefit_pv + coverage * mortality_rate * pv_factor
                       + coverage * 0.002 * pv_factor
                else benefit_pv + coverage * mortality_rate * pv_factor))"

definition calculate_future_benefits_pv :: "mortality_tables \<Rightarrow> policy \<Rightarrow> py_error + real" where
  "calculate_future_benefits_pv tables p =
     future_benefits_loop (mortality_table_of tables (gender_of p))
       (standard_discount_rate tables) (product_type_of p) (coverage_amount_of p)
       (current_age_of p) [0..<nat (remaining_years_of p)] 0.0"

fun future_premiums_loop ::
  "cso_table \<Rightarrow> real \<Rightarrow> real \<Rightarrow> int \<Rightarrow> nat list \<Rightarrow> real \<times> real \<Rightarrow> py_error + real" where
  "future_premiums_loop table discount_rate premium start_age []
       (premium_pv, survival_probability) = Inr premium_pv"
| "future_premiums_loop table discount_rate premium start_age (year # rest)
       (premium_pv, survival_probability) =
     (let current_age = min (start_age + int year) 80;
          mortality_rate = (case table current_age of Some r \<Rightarrow> r | None \<Rightarrow> 0.01)
      in case discounted survival_probability discount_rate year of
           Inl e \<Rightarrow> Inl e
         | Inr pv_factor \<Rightarrow>
             future_premiums_loop table discount_rate premium start_age rest
               (premium_pv + premium * pv_factor,
                survival_probability * (1 - mortality_rate)))"

definition calculate_future_premiums_pv :: "mortality_tables \<Rightarrow> policy \<Rightarrow> py_error + real" where
  "calculate_future_premiums_pv tables p =
     future_premiums_loop (mortality_table_of tables (gender_of p))
       (standard_discount_rate tables) (annual_premium_of p)
       (current_age_of p) [0..<nat (remaining_years_of p)] (0.0, 1.0)"

text \<open>\<open>_calculate_policy_reserves\<close> of the regulatory engine (the calculator has a
  function of the same name).\<close>

definition regulatory_policy_reserves :: "mortality_tables \<Rightarrow> policy \<Rightarrow> py_error + real" where
  "regulatory_policy_reserves tables p =
     (let base_reserve_factor =
            (case minimum_reserve_ratios (product_type_of p) of Some f \<Rightarrow> f | None \<Rightarrow> 0.05)
      in and_then (calculate_future_benefits_pv tables p) (\<lambda>future_benefits_pv.
         and_then (calculate_future_premiums_pv tables p) (\<lambda>future_premiums_pv.
         Inr (max (future_benefits_pv - future_premiums_pv)
                  (coverage_amount_of p * base_reserve_factor)))))"

definition raising :: "'a option \<Rightarrow> py_error + 'a" where
  "raising outcome = (case outcome of None \<Rightarrow> Inl ValueError | Some v \<Rightarrow> Inr v)"

definition calculate_unearned_premium_reserves ::
  "'d calendar \<Rightarrow> policy \<Rightarrow> string \<Rightarrow> py_error + real" where
  "calculate_unearned_premium_reserves cal p valuation_date =
     (let anniversary_text =
            (case policy_anniversary p of Some a \<Rightarrow> a | None \<Rightarrow> valuation_date)
      in and_then (raising (strptime cal valuation_date)) (\<lambda>valuation.
         and_then (raising (strptime cal anniversary_text)) (\<lambda>anniversary.
         and_then (raising (replace_year cal anniversary (year_of cal valuation)))
           (\<lambda>this_year.
         and_then (if date_le cal this_year valuation
                   then raising (replace_year cal this_year (year_of cal valuation + 1))
                   else Inr this_year) (\<lambda>next_anniversary.
         let days_remaining = days_between cal next_anniversary valuation;
             unearned_premium = annual_premium_of p * (real_of_int days_remaining / 365)
         in Inr (max unearned_premium 0))))))"

definition calculate_claims_reserves :: "policy \<Rightarrow> real" where
  "calculate_claims_reserves p =
     (let reserve_factor =
            (case claims_reserve_factors (product_type_of p) of Some f \<Rightarrow> f | None \<Rightarrow> 0.001)
      in coverage_amount_of p * reserve_factor)"

subsection \<open>The portfolio\<close>

text \<open>\<open>product_liabilities\<close>, a dictionary in insertion order.\<close>

fun add_liability :: "(string \<times> real) list \<Rightarrow> string \<Rightarrow> real \<Rightarrow> (string \<times> real) list" where
  "add_liability [] product_type coverage = [(product_type, 0 + coverage)]"
| "add_liability ((k, v) # rest) product_type coverage =
     (if k = product_type then (k, v + coverage) # rest
      else (k, v) # add_liability rest product_type coverage)"

fun product_liabilities :: "policy list \<Rightarrow> (string \<times> real) list \<Rightarrow> (string \<times> real) list" where
  "product_liabilities [] acc = acc"
| "product_liabilities (p # rest) acc =
     product_liabilities rest (add_liability acc (product_type_of p) (coverage_amount_of p))"

fun solvency_margin_loop :: "(string \<times> real) list \<Rightarrow> real \<Rightarrow> real" where
  "solvency_margin_loop [] total_solvency_margin = total_solvency_margin"
| "solvency_margin_loop ((product_type, liability) # rest) total_solvency_margin =
     (let margin_rate =
            (if product_type = ''term_life'' \<or> product_type = ''whole_life''
             then solvency_margin_life_insurance
             else if product_type = ''disability_income''
             then solvency_margin_disability_insurance
             else solvency_margin_critical_illness)
      in solvency_margin_loop rest (total_solvency_margin + liability * margin_rate))"

definition calculate_solvency_margin :: "policy list \<Rightarrow> real \<Rightarrow> real" where
  "calculate_solvency_margin policy_portfolio reserves_total =
     solvency_margin_loop (product_liabilities policy_portfolio []) 0.0"

definition calculate_risk_based_capital :: "policy list \<Rightarrow> real \<Rightarrow> real" where
  "calculate_risk_based_capital policy_portfolio reserves_total =
     (let total_coverage = sum_list (map coverage_amount_of policy_portfolio);
          c1_rbc = total_coverage * c1_asset_risk;
          c2_rbc = total_coverage * c2_insurance_risk;
          c3_rbc = reserves_total * c3_interest_rate_risk;
          c4_rbc = total_coverage * c4_business_risk
      in sqrt (c1_rbc ^ 2 + c2_rbc ^ 2 + c3_rbc ^ 2) + c4_rbc)"

definition check_reserve_adequacy :: "real \<Rightarrow> real \<Rightarrow> real \<Rightarrow> bool" where
  "check_reserve_adequacy reserves_total margin rbc = (reserves_total \<ge> max margin rbc)"

fun reserves_loop ::
  "'d calendar \<Rightarrow> mortality_tables \<Rightarrow> string \<Rightarrow> policy list \<Rightarrow> real \<times> real \<times> real
     \<Rightarrow> py_error + (real \<times> real \<times> real)" where
  "reserves_loop cal tables valuation_date [] totals = Inr totals"
| "reserves_loop cal tables valuation_date (p # rest)
       (total_policy_reserves, total_unearned_premium, total_claims_reserves) =
     and_then (regulatory_policy_reserves tables p) (\<lambda>reserves_of_policy.
     and_then (calculate_unearned_premium_reserves cal p valuation_date) (\<lambda>unearned_premium.
     reserves_loop cal tables valuation_date rest
       (total_policy_reserves + reserves_of_policy,
        total_unearned_premium + unearned_premium,
        total_claims_reserves + calculate_claims_reserves p)))"

text \<open>
  \<open>calculate_comprehensive_reserves\<close>. \<open>today\<close> is the text of
  \<open>datetime.now().strftime('%Y-%m-%d')\<close>, read when no valuation date is given. The
  compliance notes are presentation text and are left out of the result.
\<close>

definition calculate_comprehensive_reserves ::
  "'d calendar \<Rightarrow> string \<Rightarrow> mortality_tables \<Rightarrow> policy list \<Rightarrow> string option
     \<Rightarrow> py_error + ReserveCalculation" where
  "calculate_comprehensive_reserves cal today tables policy_portfolio valuation_date =
     (let valuation_text = (case valuation_date of Some d \<Rightarrow> d | None \<Rightarrow> today)
      in and_then (reserves_loop cal tables valuation_text policy_portfolio (0.0, 0.0, 0.0))
           (\<lambda>(total_policy_reserves, total_unearned_premium, total_claims_reserves).
              let reserves_total =
                    total_policy_reserves + total_unearned_premium + total_claims_reserves;
                  margin = calculate_solvency_margin policy_portfolio reserves_total;
                  rbc = calculate_risk_based_capital policy_portfolio reserves_total;
                  requirements_met = check_reserve_adequacy reserves_total margin rbc
              in Inr \<lparr>policy_reserves = total_policy_reserves,
                      unearned_premium_reserves = total_unearned_premium,
                      claims_reserves = total_claims_reserves,
                      total_reserves = reserves_total,
                      solvency_margin = margin,
                      risk_based_capital = rbc,
                      regulatory_requirements_met = requirements_met\<rparr>))"

section \<open>Sample data\<close>

text \<open>
  A small set of tables and the sample applicant of \<open>product_manager.py\<close>, on which the
  functions are evaluated.
\<close>

definition sample_rules :: underwriting_rules where
  "sample_rules =
     \<lparr>medical_conditions = Some
        [(''cardiovascular'', [''hypertension_controlled'' \<mapsto> 1.25]),
         (''metabolic'', [''diabetes_type2'' \<mapsto> 2.0])],
      lifestyle_factors = Some
        \<lparr>smoking = Some [''smoker'' \<mapsto> 2.5],
         alcohol = Some [''moderate_use'' \<mapsto> 1.0, ''heavy_use'' \<mapsto> 1.5],
         hazardous_activities_rules = Some [''skydiving'' \<mapsto> 1.5]\<rparr>,
      occupation_factors = Some
        [''class_1_professional'' \<mapsto> 0.9, ''class_2_standard'' \<mapsto> 1.0,
         ''class_5_hazardous'' \<mapsto> 2.0],
      financial_underwriting = Some
        \<lparr>life_insurance_max_coverage_multiple = Some 20,
         disability_insurance_max_benefit_percentage = Some 0.6,
         net_worth_requirements = Some
           \<lparr>coverage_5m_plus = Some 1000000, coverage_1m_plus = Some 250000\<rparr>\<rparr>\<rparr>"

definition sample_applicant :: applicant_data where
  "sample_applicant =
     \<lparr>age = Some 35,
      gender = Some ''male'',
      medical_history = Some
        \<lparr>conditions = Some [''hypertension_controlled''], height = Some 70,
         weight = Some 180, mh_age = None\<rparr>,
      lifestyle = Some
        \<lparr>smoking_status = Some ''non_smoker'', alcohol_use = Some ''moderate_use'',
         hazardous_activities = Some []\<rparr>,
      occupation = Some
        \<lparr>occupation_class = Some 1, occupation_title = Some ''Software Engineer''\<rparr>,
      financial_info = Some
        \<lparr>annual_income = Some 120000, net_worth = Some 300000,
         total_debt = Some 40000\<rparr>\<rparr>"

definition sample_mortality_tables :: mortality_tables where
  "sample_mortality_tables =
     \<lparr>CSO_2017 = Some
        [''male'' \<mapsto> [35 \<mapsto> 0.001, 36 \<mapsto> 0.0011, 79 \<mapsto> 0.045, 80 \<mapsto> 0.05],
         ''female'' \<mapsto> [35 \<mapsto> 0.0008, 36 \<mapsto> 0.0009, 79 \<mapsto> 0.035, 80 \<mapsto> 0.04]],
      discount_rates = Some [''standard'' \<mapsto> 0.035]\<rparr>"

definition sample_product_definitions :: product_definitions where
  "sample_product_definitions =
     \<lparr>products = Some
        [''term_life'' \<mapsto>
           \<lparr>min_age = Some 18, max_age = Some 75, min_coverage = Some 50000,
            max_coverage = Some 5000000, terms = Some [10, 20, 30],
            min_monthly_benefit = None, max_monthly_benefit = None,
            expense_load = Some 0.15, profit_margin = Some 0.10, commission = Some 0.05\<rparr>,
         ''whole_life'' \<mapsto>
           \<lparr>min_age = Some 0, max_age = Some 85, min_coverage = Some 10000,
            max_coverage = Some 2000000, terms = None,
            min_monthly_benefit = None, max_monthly_benefit = None,
            expense_load = Some 0.20, profit_margin = Some 0.10, commission = Some 0.10\<rparr>,
         ''disability_income'' \<mapsto>
           \<lparr>min_age = Some 18, max_age = Some 64, min_coverage = None,
            max_coverage = None, terms = None,
            min_monthly_benefit = Some 500, max_monthly_benefit = Some 15000,
            expense_load = Some 0.20, profit_margin = Some 0.10, commission = Some 0.10\<rparr>],
      reserve_factors = Some
        [''term_life'' \<mapsto> 0.02, ''whole_life'' \<mapsto> 0.15, ''disability_income'' \<mapsto> 0.25]\<rparr>"

definition sample_morbidity_tables :: morbidity_tables where
  "sample_morbidity_tables =
     \<lparr>occupation_classes = Some
        [1 \<mapsto> \<lparr>occ_name = Some ''Professional'',
                rates = Some [(30, [''male'' \<mapsto> 0.003, ''female'' \<mapsto> 0.004]),
                              (60, [''male'' \<mapsto> 0.012, ''female'' \<mapsto> 0.014])]\<rparr>],
      waiting_periods_disability = Some
        [''30_days'' \<mapsto> 1.0, ''90_days'' \<mapsto> 0.85, ''180_days'' \<mapsto> 0.7,
         ''365_days'' \<mapsto> 0.5]\<rparr>"

text \<open>
  A calendar of years of 365 days for the examples: a date is a year and a day of the
  year, and \<open>strptime\<close> reads the two dates the examples use.
\<close>

definition sample_calendar :: "(int \<times> int) calendar" where
  "sample_calendar =
     \<lparr>strptime = [''2024-06-30'' \<mapsto> (2024, 181), ''2024-01-15'' \<mapsto> (2024, 15)],
      year_of = fst,
      replace_year = (\<lambda>d y. Some (y, snd d)),
      date_le = (\<lambda>d1 d2. fst d1 < fst d2 \<or> (fst d1 = fst d2 \<and> snd d1 \<le> snd d2)),
      days_between = (\<lambda>d1 d2. (fst d1 - fst d2) * 365 + (snd d1 - snd d2))\<rparr>"

definition sample_policy :: policy where
  "sample_policy =
     \<lparr>policy_product_type = Some ''term_life'',
      policy_coverage_amount = Some 500000,
      policy_annual_premium = Some 600,
      policy_remaining_years = Some 2,
      policy_current_age = Some 35,
      policy_gender = Some ''male'',
      policy_anniversary = Some ''2024-01-15''\<rparr>"

text \<open>
  The applicant that \<open>app.py\<close> builds from a request that gives only an age of 70 and
  one medical condition: every other field has the default of \<open>generate_quote\<close>, and the
  medical history holds the conditions, the height and the weight, but no age.
\<close>

definition sample_older_applicant :: applicant_data where
  "sample_older_applicant =
     \<lparr>age = Some 70,
      gender = Some ''male'',
      medical_history = Some
        \<lparr>conditions = Some [''hypertension_controlled''], height = Some 70,
         weight = Some 170, mh_age = None\<rparr>,
      lifestyle = Some
        \<lparr>smoking_status = Some ''non_smoker'', alcohol_use = Some ''moderate_use'',
         hazardous_activities = Some []\<rparr>,
      occupation = Some \<lparr>occupation_class = Some 2, occupation_title = Some []\<rparr>,
      financial_info = Some
        \<lparr>annual_income = Some 100000, net_worth = Some 200000,
         total_debt = Some 50000\<rparr>\<rparr>"

section \<open>The present values in the words of the specification\<close>

text \<open>
  The specification states the two present values of a life product as sums over the
  years \<open>y = 0, ..., t - 1\<close>, for an age \<open>a\<close>, a discount rate \<open>r\<close> and the mortality rate
  \<open>q\<close>: the benefit present value is
  \<open>coverage \<times> \<Sum> q(min(a+y, 80)) \<times> (1+r)^(-y)\<close>, each year on its own, and the
  premium-annuity present value is \<open>\<Sum> s_y \<times> (1+r)^(-y)\<close> with the survival probability
  \<open>s_0 = 1\<close>, \<open>s_(y+1) = s_y \<times> (1 - q(min(a+y, 80)))\<close>. These definitions follow those
  words; \<open>rate_of\<close> is the rate \<open>q\<close> that a table gives, with the rate at 80 for an age
  the table does not hold.
\<close>

fun spec_survival :: "(int \<Rightarrow> real) \<Rightarrow> int \<Rightarrow> nat \<Rightarrow> real" where
  "spec_survival q a 0 = 1"
| "spec_survival q a (Suc y) = spec_survival q a y * (1 - q (min (a + int y) 80))"

definition spec_benefit_present_value ::
  "(int \<Rightarrow> real) \<Rightarrow> real \<Rightarrow> int \<Rightarrow> nat \<Rightarrow> real \<Rightarrow> real" where
  "spec_benefit_present_value q coverage a t r =
     coverage * (\<Sum>y<t. q (min (a + int y) 80) * (1 / (1 + r) ^ y))"

definition spec_premium_present_value :: "(int \<Rightarrow> real) \<Rightarrow> int \<Rightarrow> nat \<Rightarrow> real \<Rightarrow> real" where
  "spec_premium_present_value q a t r = (\<Sum>y<t. spec_survival q a y * (1 / (1 + r) ^ y))"

definition rate_of :: "cso_table \<Rightarrow> real \<Rightarrow> int \<Rightarrow> real" where
  "rate_of table fallback x = (case table x of Some v \<Rightarrow> v | None \<Rightarrow> fallback)"

section \<open>Properties of the underwriting engine\<close>

subsection \<open>Which errors the assessments raise\<close>

lemma calculate_bmi_returns: "calculate_bmi w h \<noteq> Inl e"
  by (simp add: calculate_bmi_def true_div_def)

lemma medical_conditions_loop_error:
  "medical_conditions_loop table cs acc = Inl e \<Longrightarrow> e = KeyError"
  by (induction table cs acc rule: medical_conditions_loop.induct)
     (auto split: option.splits)

lemma bmi_assessment_returns: "bmi_assessment mh acc \<noteq> Inl e"
  using calculate_bmi_returns
  by (auto simp: bmi_assessment_def split: option.splits sum.splits prod.splits)

lemma assess_medical_risk_error: "assess_medical_risk rules mh = Inl e \<Longrightarrow> e = KeyError"
  using bmi_assessment_returns medical_conditions_loop_error
  by (auto simp: assess_medical_risk_def Let_def split: sum.splits)

lemma debt_to_income_assessment_returns: "debt_to_income_assessment income debt acc \<noteq> Inl e"
  by (auto simp: debt_to_income_assessment_def true_div_def split: prod.splits)

subsection \<open>The decision table\<close>

text \<open>
  C1 (as amended). The decision is a total function of the financial risk score and the
  overall risk, read as a table in which the first matching row wins: a financial score
  of 3.0 or more declines with maximum coverage 0; otherwise an overall risk of at most
  0.95 is approved preferred with the requested coverage, at most 1.2 approved standard
  with the requested coverage, at most 2.0 approved substandard with the requested
  coverage capped at 2,000,000, at most 4.0 approved substandard with the cap 500,000,
  and anything above is declined with maximum coverage 0. Below a financial score of 3.0,
  every overall risk in (1.2, 2.0] gives min(requested, 2,000,000). The maximum coverage
  does not exceed the requested coverage whenever the request is non-negative or the
  decision is an approval.
\<close>

theorem underwriting_decision_table:
  "make_underwriting_decision overall_risk financial_risk requested noted =
     (if financial_risk \<ge> 3.0 then (DECLINED, 0)
      else if overall_risk \<le> 0.95 then (APPROVED_PREFERRED, requested)
      else if overall_risk \<le> 1.2 then (APPROVED_STANDARD, requested)
      else if overall_risk \<le> 2.0 then (APPROVED_SUBSTANDARD, min requested 2000000)
      else if overall_risk \<le> 4.0 then (APPROVED_SUBSTANDARD, min requested 500000)
      else (DECLINED, 0))
   \<and> (financial_risk < 3.0 \<and> 1.2 < overall_risk \<and> overall_risk \<le> 2.0 \<longrightarrow>
        snd (make_underwriting_decision overall_risk financial_risk requested noted)
          = min requested 2000000)
   \<and> (0 \<le> requested \<or>
        fst (make_underwriting_decision overall_risk financial_risk requested noted) \<noteq> DECLINED
        \<longrightarrow>
        snd (make_underwriting_decision overall_risk financial_risk requested noted)
          \<le> requested)"
  by (simp add: make_underwriting_decision_def)

theorem underwriting_decision_table_witness:
  "make_underwriting_decision 1.5 2.0 3000000 [] = (APPROVED_SUBSTANDARD, 2000000)
   \<and> snd (make_underwriting_decision 1.5 2.0 3000000 []) \<le> 3000000"
  using underwriting_decision_table [of "1.5" "2.0" 3000000 "[]"] by simp

text \<open>
  The claim as stated, that the approved coverage never exceeds the requested coverage,
  fails for a declined application with a negative request: the maximum coverage is 0.
\<close>

theorem declined_negative_request_counterexample:
  "\<not> snd (make_underwriting_decision 5.0 1.0 (- 1) []) \<le> - 1"
  by (simp add: make_underwriting_decision_def)

subsection \<open>BMI\<close>

text \<open>
  C7. The BMI multiplier is a step function: below 18.5 it is 1.2, in [18.5, 25) it is
  1.0 with no factor text, in [25, 30) it is 1.1, in [30, 35) it is 1.3, in [35, 40) it
  is 2.0, from 40 on it is 3.0. The normal band is the only one with no factor text, and a
  BMI of exactly 25.0 is in the overweight band, with multiplier 1.1.
\<close>

theorem bmi_bands:
  "(bmi < 18.5 \<longrightarrow> fst (assess_bmi_risk bmi) = 1.2)
   \<and> (18.5 \<le> bmi \<and> bmi < 25 \<longrightarrow> assess_bmi_risk bmi = (1.0, None))
   \<and> (25 \<le> bmi \<and> bmi < 30 \<longrightarrow> fst (assess_bmi_risk bmi) = 1.1)
   \<and> (30 \<le> bmi \<and> bmi < 35 \<longrightarrow> fst (assess_bmi_risk bmi) = 1.3)
   \<and> (35 \<le> bmi \<and> bmi < 40 \<longrightarrow> fst (assess_bmi_risk bmi) = 2.0)
   \<and> (40 \<le> bmi \<longrightarrow> fst (assess_bmi_risk bmi) = 3.0)
   \<and> (snd (assess_bmi_risk bmi) = None \<longleftrightarrow> 18.5 \<le> bmi \<and> bmi < 25)
   \<and> fst (assess_bmi_risk 25.0) = 1.1"
  by (simp add: assess_bmi_risk_def)

theorem bmi_bands_witness:
  "fst (assess_bmi_risk 17) = 1.2 \<and> assess_bmi_risk 22 = (1.0, None)
   \<and> fst (assess_bmi_risk 27) = 1.1 \<and> fst (assess_bmi_risk 32) = 1.3
   \<and> fst (assess_bmi_risk 37) = 2.0 \<and> fst (assess_bmi_risk 45) = 3.0
   \<and> fst (assess_bmi_risk 25.0) = 1.1"
  using bmi_bands [of 17] bmi_bands [of 22] bmi_bands [of 27] bmi_bands [of 32]
    bmi_bands [of 37] bmi_bands [of 45]
  by simp

text \<open>
  C9. With a height that is zero or negative the BMI is the default 25 and nothing is
  divided by the height; 25 is in the overweight band, so a medical history that holds
  such a height and a weight gets the BMI multiplier 1.1 and the overweight factor, and
  the medical assessment never ends in a division error.
\<close>

theorem invalid_height_default_bmi:
  "(h \<le> 0 \<longrightarrow> calculate_bmi w h = Inr 25)
   \<and> assess_bmi_risk 25 = (1.1, Some (Overweight_BMI 25))
   \<and> calculate_bmi w h \<noteq> Inl ZeroDivisionError
   \<and> (height mh = Some h \<and> weight mh = Some w \<and> h \<le> 0 \<longrightarrow>
        bmi_assessment mh (m, noted) = Inr (m * 1.1, noted @ [Overweight_BMI 25])
        \<and> assess_medical_risk rules mh \<noteq> Inl ZeroDivisionError
        \<and> (medical_conditions_loop (medical_conditions rules)
              (case conditions mh of Some cs \<Rightarrow> cs | None \<Rightarrow> []) (1.0, []) = Inr (m, noted)
            \<longrightarrow> assess_medical_risk rules mh
                  = Inr (medical_age_adjustment mh (m * 1.1, noted @ [Overweight_BMI 25]))))"
proof -
  have a: "h \<le> 0 \<longrightarrow> calculate_bmi w h = Inr 25"
    by (simp add: calculate_bmi_def)
  have b: "assess_bmi_risk 25 = (1.1, Some (Overweight_BMI 25))"
    by (simp add: assess_bmi_risk_def)
  have c: "calculate_bmi w h \<noteq> Inl ZeroDivisionError"
    by (rule calculate_bmi_returns)
  have d: "bmi_assessment mh (m, noted) = Inr (m * 1.1, noted @ [Overweight_BMI 25])"
    if "height mh = Some h" "weight mh = Some w" "h \<le> 0"
    using that a b by (simp add: bmi_assessment_def)
  have e: "assess_medical_risk rules mh \<noteq> Inl ZeroDivisionError"
    using assess_medical_risk_error by blast
  have f: "assess_medical_risk rules mh
             = Inr (medical_age_adjustment mh (m * 1.1, noted @ [Overweight_BMI 25]))"
    if "height mh = Some h" "weight mh = Some w" "h \<le> 0"
       "medical_conditions_loop (medical_conditions rules)
          (case conditions mh of Some cs \<Rightarrow> cs | None \<Rightarrow> []) (1.0, []) = Inr (m, noted)"
    using that d by (simp add: assess_medical_risk_def Let_def)
  from a b c d e f show ?thesis by blast
qed

theorem invalid_height_default_bmi_witness:
  "calculate_bmi 170 0 = Inr 25
   \<and> assess_medical_risk sample_rules
         \<lparr>conditions = Some [''hypertension_controlled''], height = Some 0,
          weight = Some 170, mh_age = None\<rparr>
       = Inr (1.375, [Medical_condition ''hypertension_controlled'' 1.25, Overweight_BMI 25])"
  using invalid_height_default_bmi
    [where h = 0 and w = 170 and rules = sample_rules and m = "1.25"
       and noted = "[Medical_condition ''hypertension_controlled'' 1.25]"
       and mh = "\<lparr>conditions = Some [''hypertension_controlled''], height = Some 0,
                  weight = Some 170, mh_age = None\<rparr>"]
  by (simp add: sample_rules_def medical_age_adjustment_def)

subsection \<open>The overall multiplier\<close>

lemma and_then_Inr:
  "and_then step rest = Inr y \<longleftrightarrow> (\<exists>x. step = Inr x \<and> rest x = Inr y)"
  by (cases step) (simp_all add: and_then_def)

lemma perform_components:
  assumes "perform_comprehensive_risk_assessment rules applicant product_type requested = Inr ra"
  shows "\<exists>noted1 noted2 noted3.
           assess_medical_risk rules
             (case medical_history applicant of Some h \<Rightarrow> h | None \<Rightarrow> empty_medical_history)
             = Inr (medical_risk_multiplier ra, noted1)
         \<and> assess_lifestyle_risk rules
             (case lifestyle applicant of Some l \<Rightarrow> l | None \<Rightarrow> empty_lifestyle_info)
             = Inr (lifestyle_risk_multiplier ra, noted2)
         \<and> assess_occupation_risk rules
             (case occupation applicant of Some oc \<Rightarrow> oc | None \<Rightarrow> empty_occupation_info)
             (case age applicant of Some a \<Rightarrow> a | None \<Rightarrow> 30)
             = Inr (occupation_risk_multiplier ra, noted3)
         \<and> overall_risk_multiplier ra
             = combine_risk_factors (medical_risk_multiplier ra)
                 (lifestyle_risk_multiplier ra) (occupation_risk_multiplier ra)"
  using assms
  by (auto simp: perform_comprehensive_risk_assessment_def Let_def
           split: sum.splits prod.splits)

lemma sample_assessment:
  "perform_comprehensive_risk_assessment sample_rules sample_applicant ''term_life'' 500000
     = Inr \<lparr>overall_risk_multiplier = 1.2375,
            medical_risk_multiplier = 1.375,
            lifestyle_risk_multiplier = 1.0,
            occupation_risk_multiplier = 0.9,
            financial_risk_score = 1.0,
            underwriting_decision = APPROVED_SUBSTANDARD,
            maximum_coverage = 500000,
            risk_factors_identified =
              [Medical_condition ''hypertension_controlled'' 1.25,
               Overweight_BMI (703 * 180 / 4900),
               Occupation ''Software Engineer'' 1 0.9]\<rparr>"
  by (simp add: perform_comprehensive_risk_assessment_def sample_rules_def
        sample_applicant_def assess_medical_risk_def bmi_assessment_def calculate_bmi_def
        true_div_def assess_bmi_risk_def medical_age_adjustment_def
        assess_lifestyle_risk_def smoking_assessment_def alcohol_assessment_def
        assess_occupation_risk_def class_key_def assess_financial_capacity_def
        income_based_limit_def net_worth_requirement_def debt_to_income_assessment_def
        combine_risk_factors_def make_underwriting_decision_def Let_def)

text \<open>
  C2. The combined multiplier of any three component multipliers is the smaller of their
  product and 10.0, so it lies in (0, 10.0] when the three are strictly positive. The
  overall multiplier of every risk assessment is that combination of its medical,
  lifestyle and occupation multipliers; the financial score is no part of it: an
  assessment of the same applicant with any other financial information, product type
  and requested coverage has the same overall multiplier.
\<close>

theorem overall_risk_is_capped_product:
  "combine_risk_factors m l oc = min (m * l * oc) 10.0
   \<and> (0 < m \<and> 0 < l \<and> 0 < oc \<longrightarrow>
        0 < combine_risk_factors m l oc \<and> combine_risk_factors m l oc \<le> 10.0)
   \<and> (perform_comprehensive_risk_assessment rules applicant product_type requested = Inr ra
        \<longrightarrow>
        overall_risk_multiplier ra
          = min (medical_risk_multiplier ra * lifestyle_risk_multiplier ra
                   * occupation_risk_multiplier ra) 10.0
        \<and> (0 < medical_risk_multiplier ra \<and> 0 < lifestyle_risk_multiplier ra
             \<and> 0 < occupation_risk_multiplier ra \<longrightarrow>
             0 < overall_risk_multiplier ra \<and> overall_risk_multiplier ra \<le> 10.0)
        \<and> (\<forall>finances product_type' requested' ra'.
              perform_comprehensive_risk_assessment rules
                (applicant\<lparr>financial_info := finances\<rparr>) product_type' requested' = Inr ra'
              \<longrightarrow> overall_risk_multiplier ra' = overall_risk_multiplier ra))"
proof -
  have a: "combine_risk_factors m l oc = min (m * l * oc) 10.0" for m l oc
    by (simp add: combine_risk_factors_def Let_def)
  have b: "0 < combine_risk_factors m l oc \<and> combine_risk_factors m l oc \<le> 10.0"
    if "0 < m" "0 < l" "0 < oc" for m l oc
    using that by (simp add: a)
  have c: "overall_risk_multiplier ra' = overall_risk_multiplier ra"
    if "perform_comprehensive_risk_assessment rules applicant product_type requested = Inr ra"
       "perform_comprehensive_risk_assessment rules
          (applicant\<lparr>financial_info := finances\<rparr>) product_type' requested' = Inr ra'"
    for finances product_type' requested' ra'
    using perform_components [OF that(1)] perform_components [OF that(2)]
    by auto
  have d: "overall_risk_multiplier ra
             = min (medical_risk_multiplier ra * lifestyle_risk_multiplier ra
                      * occupation_risk_multiplier ra) 10.0"
    if "perform_comprehensive_risk_assessment rules applicant product_type requested = Inr ra"
    using perform_components [OF that] by (auto simp: a)
  show ?thesis
    using a b c d by (metis (no_types, lifting))
qed

theorem overall_risk_is_capped_product_witness:
  "combine_risk_factors 1.375 1.0 0.9 = 1.2375
   \<and> 0 < combine_risk_factors 1.375 1.0 0.9
   \<and> combine_risk_factors 1.375 1.0 0.9 \<le> 10.0
   \<and> (\<exists>ra. perform_comprehensive_risk_assessment sample_rules sample_applicant
               ''term_life'' 500000 = Inr ra
            \<and> overall_risk_multiplier ra
                = min (medical_risk_multiplier ra * lifestyle_risk_multiplier ra
                         * occupation_risk_multiplier ra) 10.0
            \<and> 0 < overall_risk_multiplier ra \<and> overall_risk_multiplier ra \<le> 10.0)"
proof -
  obtain ra where ra:
    "perform_comprehensive_risk_assessment sample_rules sample_applicant
       ''term_life'' 500000 = Inr ra"
    "medical_risk_multiplier ra = 1.375" "lifestyle_risk_multiplier ra = 1.0"
    "occupation_risk_multiplier ra = 0.9"
    using sample_assessment by simp
  note inst = overall_risk_is_capped_product
    [where m = "1.375" and l = "1.0" and oc = "0.9"
       and rules = sample_rules and applicant = sample_applicant
       and product_type = "''term_life''" and requested = 500000 and ra = ra]
  from inst have 1: "combine_risk_factors 1.375 1.0 0.9 = min (1.375 * 1.0 * 0.9) 10.0"
    by (rule conjunct1)
  from inst ra(1) have 2:
    "overall_risk_multiplier ra
       = min (medical_risk_multiplier ra * lifestyle_risk_multiplier ra
                * occupation_risk_multiplier ra) 10.0"
    by blast
  have 3: "overall_risk_multiplier ra = 1.2375"
    unfolding 2 ra by simp
  have 4: "combine_risk_factors 1.375 1.0 0.9 = 1.2375"
    unfolding 1 by simp
  show ?thesis
    using ra(1) 2 3 4 by auto
qed

subsection \<open>Financial capacity\<close>

text \<open>The score and the factors before the debt-to-income step.\<close>

lemma income_based_limit_score:
  "income_based_limit financial_rules income requested product_type = Inr (score, noted)
   \<Longrightarrow> (score = 1.0 \<or> score = 2.0) \<and> (\<forall>x. High_debt_to_income_ratio x \<notin> set noted)"
  by (auto simp: income_based_limit_def Let_def split: if_splits option.splits)

lemma net_worth_requirement_score:
  "net_worth_requirement financial_rules worth requested (score, noted) = Inr (score', noted')
   \<Longrightarrow> (score' = score \<or> score' = 2.0 \<or> score' = 3.0)
       \<and> (\<forall>x. High_debt_to_income_ratio x \<in> set noted'
                 \<longrightarrow> High_debt_to_income_ratio x \<in> set noted)"
  by (auto simp: net_worth_requirement_def split: if_splits option.splits)

text \<open>
  C10. The debt-to-income adjustment is applied only for a strictly positive annual
  income: with an income of zero or less the step returns the score and the factors it
  was given. For an applicant whose annual income is 0 (given, or absent and so defaulted
  to 0), the financial assessment never ends in a division error, does not depend on the
  total debt, returns one of the scores 1.0, 2.0 and 3.0 that the earlier steps set, and
  notes no debt-to-income factor.
\<close>

theorem debt_to_income_needs_positive_income:
  "(income \<le> 0 \<longrightarrow> debt_to_income_assessment income debt acc = Inr acc)
   \<and> debt_to_income_assessment income debt acc \<noteq> Inl ZeroDivisionError
   \<and> ((annual_income info = Some 0 \<or> annual_income info = None) \<longrightarrow>
        assess_financial_capacity rules info requested product_type \<noteq> Inl ZeroDivisionError
        \<and> assess_financial_capacity rules (info\<lparr>total_debt := other_debt\<rparr>) requested
              product_type
            = assess_financial_capacity rules info requested product_type
        \<and> (\<forall>score noted.
              assess_financial_capacity rules info requested product_type = Inr (score, noted)
              \<longrightarrow> (score = 1.0 \<or> score = 2.0 \<or> score = 3.0)
                  \<and> (\<forall>x. High_debt_to_income_ratio x \<notin> set noted)))"
proof -
  have a: "debt_to_income_assessment income debt acc = Inr acc" if "income \<le> 0"
    for income debt and acc :: "real \<times> risk_factor list"
    using that by (simp add: debt_to_income_assessment_def split: prod.splits)
  have b: "debt_to_income_assessment income debt acc \<noteq> Inl ZeroDivisionError"
    by (rule debt_to_income_assessment_returns)
  have zero: "(case annual_income info of Some x \<Rightarrow> x | None \<Rightarrow> 0) = 0"
    if "annual_income info = Some 0 \<or> annual_income info = None"
    using that by auto
  have c: "assess_financial_capacity rules info requested product_type \<noteq> Inl ZeroDivisionError"
    if "annual_income info = Some 0 \<or> annual_income info = None"
    using zero [OF that]
    by (auto simp: assess_financial_capacity_def Let_def a income_based_limit_def
          net_worth_requirement_def split: option.splits sum.splits if_splits prod.splits)
  have d: "assess_financial_capacity rules (info\<lparr>total_debt := other_debt\<rparr>) requested
              product_type
            = assess_financial_capacity rules info requested product_type"
    if "annual_income info = Some 0 \<or> annual_income info = None"
    using zero [OF that]
    by (simp add: assess_financial_capacity_def Let_def a split: option.splits sum.splits)
  have e: "(score = 1.0 \<or> score = 2.0 \<or> score = 3.0)
             \<and> (\<forall>x. High_debt_to_income_ratio x \<notin> set noted)"
    if "annual_income info = Some 0 \<or> annual_income info = None"
       "assess_financial_capacity rules info requested product_type = Inr (score, noted)"
    for score noted
  proof -
    from that(2) zero [OF that(1)] obtain financial_rules s1 n1 where
      1: "income_based_limit financial_rules 0 requested product_type = Inr (s1, n1)" and
      2: "net_worth_requirement financial_rules
            (case net_worth info of Some x \<Rightarrow> x | None \<Rightarrow> 0) requested (s1, n1)
          = Inr (score, noted)"
      by (auto simp: assess_financial_capacity_def Let_def a
            split: option.splits sum.splits)
    from income_based_limit_score [OF 1] net_worth_requirement_score [OF 2]
    show ?thesis by auto
  qed
  from a b c d e show ?thesis by blast
qed

theorem debt_to_income_needs_positive_income_witness:
  "assess_financial_capacity sample_rules
     \<lparr>annual_income = Some 0, net_worth = Some 300000, total_debt = Some 40000\<rparr>
     500000 ''term_life''
   = Inr (2.0, [Coverage_exceeds_income_limit 20])
   \<and> assess_financial_capacity sample_rules
     \<lparr>annual_income = Some 0, net_worth = Some 300000, total_debt = Some 900000\<rparr>
     500000 ''term_life''
   = Inr (2.0, [Coverage_exceeds_income_limit 20])"
proof -
  have ev: "assess_financial_capacity sample_rules
     \<lparr>annual_income = Some 0, net_worth = Some 300000, total_debt = Some 40000\<rparr>
     500000 ''term_life'' = Inr (2.0, [Coverage_exceeds_income_limit 20])"
    by (simp add: assess_financial_capacity_def sample_rules_def income_based_limit_def
          net_worth_requirement_def debt_to_income_assessment_def Let_def)
  from debt_to_income_needs_positive_income
    [where info = "\<lparr>annual_income = Some 0, net_worth = Some 300000,
                     total_debt = Some 40000\<rparr>"
       and rules = sample_rules and requested = 500000 and product_type = "''term_life''"
       and other_debt = "Some 900000"]
  show ?thesis using ev by simp
qed

subsection \<open>The age adjustment of the medical assessment\<close>

text \<open>
  C4. \<open>_assess_medical_risk\<close> reads the age from the medical history, which the
  comprehensive assessment passes without the applicant's age: the applicant of 70 with a
  declared condition, as \<open>app.py\<close> builds it, gets the medical multiplier 1.25 of the
  condition alone, with no age adjustment of 1.1.
\<close>

theorem medical_age_adjustment_reads_wrong_age:
  "\<exists>ra. perform_comprehensive_risk_assessment sample_rules sample_older_applicant
           ''term_life'' 500000 = Inr ra
        \<and> medical_risk_multiplier ra = 1.25
        \<and> Medical_age_adjustment 1.1 \<notin> set (risk_factors_identified ra)"
  by (simp add: perform_comprehensive_risk_assessment_def sample_rules_def
        sample_older_applicant_def assess_medical_risk_def bmi_assessment_def
        calculate_bmi_def true_div_def assess_bmi_risk_def medical_age_adjustment_def
        assess_lifestyle_risk_def smoking_assessment_def alcohol_assessment_def
        assess_occupation_risk_def class_key_def assess_financial_capacity_def
        income_based_limit_def net_worth_requirement_def debt_to_income_assessment_def
        combine_risk_factors_def make_underwriting_decision_def Let_def)

subsection \<open>The conditions loop and the applicant's age\<close>

text \<open>
  The conditions loop of the underwriting engine, with a rule table at hand, returns the
  product of one multiplier for each declared condition: the multiplier of the first
  category that holds the condition, and 1.5 for a condition that no category holds. It
  notes one factor for each condition, in the order declared.
\<close>

theorem engine_conditions_product:
  "medical_conditions_loop (Some categories) cs (m, noted)
     = Inr (m * prod_list (map (\<lambda>c. case find_condition categories c of
                                         Some k \<Rightarrow> k | None \<Rightarrow> 1.5) cs),
            noted @ map (\<lambda>c. case find_condition categories c of
                                 Some k \<Rightarrow> Medical_condition c k
                               | None \<Rightarrow> Medical_unknown_condition c) cs)"
  by (induction cs arbitrary: m noted) (simp_all add: mult.assoc split: option.splits)

text \<open>
  The medical multiplier of an assessment does not depend on the applicant's age: an
  assessment of the same applicant with any other age has the same medical multiplier.
\<close>

theorem medical_multiplier_ignores_applicant_age:
  "perform_comprehensive_risk_assessment rules applicant product_type requested = Inr ra
   \<and> perform_comprehensive_risk_assessment rules (applicant\<lparr>age := other_age\<rparr>)
         product_type requested = Inr ra'
   \<longrightarrow> medical_risk_multiplier ra' = medical_risk_multiplier ra"
proof (intro impI, elim conjE)
  assume 1: "perform_comprehensive_risk_assessment rules applicant product_type requested
               = Inr ra"
    and 2: "perform_comprehensive_risk_assessment rules (applicant\<lparr>age := other_age\<rparr>)
              product_type requested = Inr ra'"
  from perform_components [OF 1] perform_components [OF 2]
  show "medical_risk_multiplier ra' = medical_risk_multiplier ra"
    by auto
qed

lemma sample_older_assessment_returns:
  "\<exists>ra. perform_comprehensive_risk_assessment sample_rules sample_older_applicant
           ''term_life'' 500000 = Inr ra \<and> medical_risk_multiplier ra = 1.25"
  by (simp add: perform_comprehensive_risk_assessment_def sample_rules_def
        sample_older_applicant_def assess_medical_risk_def bmi_assessment_def
        calculate_bmi_def true_div_def assess_bmi_risk_def medical_age_adjustment_def
        assess_lifestyle_risk_def smoking_assessment_def alcohol_assessment_def
        assess_occupation_risk_def class_key_def assess_financial_capacity_def
        income_based_limit_def net_worth_requirement_def debt_to_income_assessment_def
        combine_risk_factors_def make_underwriting_decision_def Let_def)

lemma sample_younger_assessment_returns:
  "\<exists>ra. perform_comprehensive_risk_assessment sample_rules
           (sample_older_applicant\<lparr>age := Some 40\<rparr>) ''term_life'' 500000 = Inr ra"
  by (simp add: perform_comprehensive_risk_assessment_def sample_rules_def
        sample_older_applicant_def assess_medical_risk_def bmi_assessment_def
        calculate_bmi_def true_div_def assess_bmi_risk_def medical_age_adjustment_def
        assess_lifestyle_risk_def smoking_assessment_def alcohol_assessment_def
        assess_occupation_risk_def class_key_def assess_financial_capacity_def
        income_based_limit_def net_worth_requirement_def debt_to_income_assessment_def
        combine_risk_factors_def make_underwriting_decision_def Let_def)

theorem medical_multiplier_ignores_applicant_age_witness:
  "\<exists>ra ra'.
     perform_comprehensive_risk_assessment sample_rules sample_older_applicant
       ''term_life'' 500000 = Inr ra
   \<and> perform_comprehensive_risk_assessment sample_rules
       (sample_older_applicant\<lparr>age := Some 40\<rparr>) ''term_life'' 500000 = Inr ra'
   \<and> medical_risk_multiplier ra = 1.25 \<and> medical_risk_multiplier ra' = 1.25"
proof -
  obtain ra where ra:
    "perform_comprehensive_risk_assessment sample_rules sample_older_applicant
       ''term_life'' 500000 = Inr ra" "medical_risk_multiplier ra = 1.25"
    using sample_older_assessment_returns by blast
  obtain ra' where ra':
    "perform_comprehensive_risk_assessment sample_rules
       (sample_older_applicant\<lparr>age := Some 40\<rparr>) ''term_life'' 500000 = Inr ra'"
    using sample_younger_assessment_returns by blast
  from medical_multiplier_ignores_applicant_age
    [where rules = sample_rules and applicant = sample_older_applicant
       and product_type = "''term_life''" and requested = 500000 and ra = ra
       and other_age = "Some 40" and ra' = ra'] ra(1) ra'
  have "medical_risk_multiplier ra' = medical_risk_multiplier ra" by blast
  with ra ra' show ?thesis by auto
qed

section \<open>Properties of the actuarial calculator\<close>

subsection \<open>Present values\<close>

lemma mortality_cost_loop_sum:
  assumes "table 80 = Some fallback" and "1 + r \<noteq> 0"
  shows "mortality_cost_loop table r a ys so_far
           = Inr (so_far + (\<Sum>y\<leftarrow>ys. rate_of table fallback (min (a + int y) 80)
                                   * (1 / (1 + r) ^ y)))"
  using assms
  by (induction ys arbitrary: so_far)
     (simp_all add: mortality_rate_at_def discounted_def true_div_def rate_of_def Let_def
        add.assoc)

lemma premium_present_value_loop_sum:
  assumes "table 80 = Some fallback" and "1 + r \<noteq> 0"
  shows "premium_present_value_loop table r a [k..<n]
           (pv, spec_survival (rate_of table fallback) a k)
         = Inr (pv + (\<Sum>y\<leftarrow>[k..<n]. spec_survival (rate_of table fallback) a y
                                      * (1 / (1 + r) ^ y)))"
proof (induction "n - k" arbitrary: k pv)
  case 0
  then show ?case by simp
next
  case (Suc d)
  then have lt: "k < n" and d: "d = n - Suc k" by linarith+
  have step: "spec_survival (rate_of table fallback) a k
                * (1 - rate_of table fallback (min (a + int k) 80))
              = spec_survival (rate_of table fallback) a (Suc k)"
    by simp
  show ?case
    using assms lt Suc.hyps(1) [OF d, of "pv + spec_survival (rate_of table fallback) a k
                                             / (1 + r) ^ k"]
    by (simp add: upt_conv_Cons mortality_rate_at_def discounted_def true_div_def Let_def
          add.assoc step del: spec_survival.simps)
       (simp add: rate_of_def)
qed

lemma sum_list_upt: "(\<Sum>y\<leftarrow>[0..<n]. f y) = (\<Sum>y<n. f y)"
  by (simp add: interv_sum_list_conv_sum_set_nat atLeast0LessThan)

text \<open>
  C6. For a life product with age \<open>a\<close>, term \<open>t\<close> and discount rate \<open>r\<close> (tables that
  hold the gender, the standard rate and the rate at 80; \<open>1 + r\<close> not zero), the mortality
  cost is computed and the benefit present value is
  \<open>coverage \<times> \<Sum> q(min(a+y, 80)) \<times> (1+r)^(-y)\<close> over the years \<open>y < t\<close>, each year's
  cost on its own, while the premium-annuity present value is \<open>\<Sum> s_y \<times> (1+r)^(-y)\<close> with
  the survival probability \<open>s_y\<close> carried from year to year.
\<close>

theorem life_present_values:
  "CSO_2017 tables = Some by_gender \<and> by_gender sex = Some table
   \<and> discount_rates tables = Some by_name \<and> by_name ''standard'' = Some r
   \<and> table 80 = Some fallback \<and> 1 + r \<noteq> 0 \<longrightarrow>
   (\<exists>mortality_cost.
       calculate_mortality_cost tables a sex t = Inr mortality_cost
     \<and> calculate_benefit_present_value coverage mortality_cost a sex t
         = spec_benefit_present_value (rate_of table fallback) (real_of_int coverage)
             a (nat t) r)
   \<and> calculate_premium_present_value tables t a sex
       = Inr (spec_premium_present_value (rate_of table fallback) a (nat t) r)"
proof (intro impI, elim conjE)
  assume h: "CSO_2017 tables = Some by_gender" "by_gender sex = Some table"
    "discount_rates tables = Some by_name" "by_name ''standard'' = Some r"
    "table 80 = Some fallback" "1 + r \<noteq> 0"
  have c: "calculate_mortality_cost tables a sex t
             = Inr (\<Sum>y<nat t. rate_of table fallback (min (a + int y) 80)
                                * (1 / (1 + r) ^ y))"
    using h mortality_cost_loop_sum [where table = table and fallback = fallback and r = r
        and a = a and ys = "[0..<nat t]" and so_far = 0]
    by (simp add: calculate_mortality_cost_def sum_list_upt)
  have p: "calculate_premium_present_value tables t a sex
             = Inr (spec_premium_present_value (rate_of table fallback) a (nat t) r)"
    using h premium_present_value_loop_sum [where table = table and fallback = fallback
        and r = r and a = a and k = 0 and n = "nat t" and pv = 0]
    by (simp add: calculate_premium_present_value_def sum_list_upt
          spec_premium_present_value_def)
  show "(\<exists>mortality_cost.
       calculate_mortality_cost tables a sex t = Inr mortality_cost
     \<and> calculate_benefit_present_value coverage mortality_cost a sex t
         = spec_benefit_present_value (rate_of table fallback) (real_of_int coverage)
             a (nat t) r)
   \<and> calculate_premium_present_value tables t a sex
       = Inr (spec_premium_present_value (rate_of table fallback) a (nat t) r)"
    using c p
    by (simp add: calculate_benefit_present_value_def spec_benefit_present_value_def)
qed


theorem life_present_values_witness:
  "calculate_mortality_cost sample_mortality_tables 79 ''male'' 3
     = Inr (0.045 + 0.05 / 1.035 + 0.05 / 1.035 ^ 2)
   \<and> calculate_benefit_present_value 500000 (0.045 + 0.05 / 1.035 + 0.05 / 1.035 ^ 2)
         79 ''male'' 3
     = 500000 * (0.045 + 0.05 / 1.035 + 0.05 / 1.035 ^ 2)
   \<and> calculate_premium_present_value sample_mortality_tables 3 79 ''male''
     = Inr (1 + 0.955 / 1.035 + 0.955 * 0.95 / 1.035 ^ 2)"
proof -
  let ?table = "[35 \<mapsto> 0.001, 36 \<mapsto> 0.0011, 79 \<mapsto> 0.045, 80 \<mapsto> (0.05::real)]"
  have keys: "CSO_2017 sample_mortality_tables
                = Some [''male'' \<mapsto> ?table,
                        ''female'' \<mapsto> [35 \<mapsto> 0.0008, 36 \<mapsto> 0.0009, 79 \<mapsto> 0.035, 80 \<mapsto> 0.04]]
              \<and> [''male'' \<mapsto> ?table,
                  ''female'' \<mapsto> [35 \<mapsto> 0.0008, 36 \<mapsto> 0.0009, 79 \<mapsto> 0.035, 80 \<mapsto> 0.04]]
                  ''male'' = Some ?table
              \<and> discount_rates sample_mortality_tables = Some [''standard'' \<mapsto> 0.035]
              \<and> [''standard'' \<mapsto> (0.035::real)] ''standard'' = Some 0.035
              \<and> ?table 80 = Some 0.05 \<and> 1 + (0.035::real) \<noteq> 0"
    by (simp add: sample_mortality_tables_def)
  from life_present_values [where a = 79 and t = 3 and coverage = 500000, rule_format, OF keys]
  obtain cost where
    cost: "calculate_mortality_cost sample_mortality_tables 79 ''male'' 3 = Inr cost" and
    benefit: "calculate_benefit_present_value 500000 cost 79 ''male'' 3
                = spec_benefit_present_value (rate_of ?table 0.05) 500000 79 (nat 3) 0.035" and
    premium: "calculate_premium_present_value sample_mortality_tables 3 79 ''male''
                = Inr (spec_premium_present_value (rate_of ?table 0.05) 79 (nat 3) 0.035)"
    by auto
  have three: "(\<Sum>y<3. f y) = f 0 + f (Suc 0) + f (Suc (Suc 0))" for f :: "nat \<Rightarrow> real"
    by (simp add: numeral_3_eq_3)
  have b: "spec_benefit_present_value (rate_of ?table 0.05) 500000 79 (nat 3) 0.035
             = 500000 * (0.045 + 0.05 / 1.035 + 0.05 / 1.035 ^ 2)"
    by (simp add: spec_benefit_present_value_def rate_of_def three power2_eq_square)
  have p: "spec_premium_present_value (rate_of ?table 0.05) 79 (nat 3) 0.035
             = 1 + 0.955 / 1.035 + 0.955 * 0.95 / 1.035 ^ 2"
    by (simp add: spec_premium_present_value_def rate_of_def three power2_eq_square)
  from benefit b have "cost = 0.045 + 0.05 / 1.035 + 0.05 / 1.035 ^ 2"
    by (simp add: calculate_benefit_present_value_def)
  with cost premium p show ?thesis
    by (simp add: calculate_benefit_present_value_def)
qed

subsection \<open>The net premium\<close>

lemma net_premium_division_value:
  "net_premium_division benefit_pv premium_pv
     = Inr (if premium_pv > 0 then benefit_pv / premium_pv else 0)"
  by (simp add: net_premium_division_def true_div_def)

lemma premium_present_value_no_years:
  "t \<le> 0 \<Longrightarrow> calculate_premium_present_value tables t a sex = Inr pv \<Longrightarrow> pv = 0"
  by (auto simp: calculate_premium_present_value_def split: option.splits)

lemma life_premium_net:
  assumes "calculate_life_insurance_premium definitions tables rules a sex coverage t
             product_type factors = Inr quote"
  shows "\<exists>mortality_cost premium_pv.
           calculate_mortality_cost tables a sex t = Inr mortality_cost
         \<and> calculate_premium_present_value tables t a sex = Inr premium_pv
         \<and> net_premium quote
             = (if premium_pv > 0
                then calculate_benefit_present_value coverage mortality_cost a sex t / premium_pv
                else 0)"
  using assms
  unfolding calculate_life_insurance_premium_def Let_def and_then_Inr
    net_premium_division_value
  by (elim exE conjE) (clarsimp split del: if_split)

lemma subscript_Inr: "subscript entry = Inr v \<longleftrightarrow> entry = Some v"
  by (cases entry) (simp_all add: subscript_def)

lemma disability_premium_net:
  assumes "calculate_disability_premium leading_int definitions tables morbidity a sex
             occ_class monthly_benefit benefit_period waiting_period = Inr quote"
  shows "\<exists>classes occ_data age_data closest_age by_gender morbidity_rate benefit_pv premium_pv.
           occupation_classes morbidity = Some classes
         \<and> classes occ_class = Some occ_data
         \<and> rates occ_data = Some age_data
         \<and> find_closest_age a age_data = Inr closest_age
         \<and> map_of age_data closest_age = Some by_gender
         \<and> by_gender sex = Some morbidity_rate
         \<and> calculate_disability_present_value leading_int tables monthly_benefit
             morbidity_rate a benefit_period = Inr benefit_pv
         \<and> calculate_premium_present_value tables (65 - a) a sex = Inr premium_pv
         \<and> net_premium quote = (if premium_pv > 0 then benefit_pv / premium_pv else 0)"
  using assms
  unfolding calculate_disability_premium_def Let_def and_then_Inr
    net_premium_division_value subscript_Inr
  by (elim exE conjE) (clarsimp split del: if_split)

text \<open>
  C5. The net premium step returns, without any arithmetic fault, the benefit present
  value divided by the premium-annuity present value when the latter is strictly
  positive, and 0 otherwise, in particular when it is zero. Every life quote and every
  disability quote that is returned carries that value as its net premium: for a life
  quote, of the benefit present value of the mortality cost and the annuity of the
  policy term; for a disability quote, of the benefit present value at the morbidity rate
  that the occupation class gives for the closest tabulated age and the gender, and of
  the annuity to age 65. It is 0 for a life term of no years (term = 0) and for a
  disability applicant of 65 or more, whose annuity has no years.
\<close>

theorem net_premium_guarded_division:
  "net_premium_division benefit_pv premium_pv
     = Inr (if premium_pv > 0 then benefit_pv / premium_pv else 0)
   \<and> (calculate_life_insurance_premium definitions tables rules a sex coverage t
         product_type factors = Inr quote
       \<longrightarrow> (\<exists>mortality_cost pv.
               calculate_mortality_cost tables a sex t = Inr mortality_cost
             \<and> calculate_premium_present_value tables t a sex = Inr pv
             \<and> net_premium quote
                 = (if pv > 0
                    then calculate_benefit_present_value coverage mortality_cost a sex t / pv
                    else 0))
           \<and> (t \<le> 0 \<longrightarrow> net_premium quote = 0))
   \<and> (calculate_disability_premium leading_int definitions tables morbidity a sex
         occ_class monthly_benefit benefit_period waiting_period = Inr disability_quote
       \<longrightarrow> (\<exists>classes occ_data age_data closest_age by_gender morbidity_rate benefit pv.
               occupation_classes morbidity = Some classes
             \<and> classes occ_class = Some occ_data
             \<and> rates occ_data = Some age_data
             \<and> find_closest_age a age_data = Inr closest_age
             \<and> map_of age_data closest_age = Some by_gender
             \<and> by_gender sex = Some morbidity_rate
             \<and> calculate_disability_present_value leading_int tables monthly_benefit
                 morbidity_rate a benefit_period = Inr benefit
             \<and> calculate_premium_present_value tables (65 - a) a sex = Inr pv
             \<and> net_premium disability_quote = (if pv > 0 then benefit / pv else 0))
           \<and> (a \<ge> 65 \<longrightarrow> net_premium disability_quote = 0))"
proof -
  have 1: "net_premium quote = 0"
    if "calculate_life_insurance_premium definitions tables rules a sex coverage t
          product_type factors = Inr quote" "t \<le> 0"
    using life_premium_net [OF that(1)] premium_present_value_no_years [OF that(2)]
    by fastforce
  have 2: "net_premium disability_quote = 0"
    if "calculate_disability_premium leading_int definitions tables morbidity a sex
          occ_class monthly_benefit benefit_period waiting_period = Inr disability_quote"
       "a \<ge> 65"
    using disability_premium_net [OF that(1)]
      premium_present_value_no_years [of "65 - a" tables a sex] that(2)
    by fastforce
  show ?thesis
    apply (intro conjI impI)
        apply (rule net_premium_division_value)
       apply (erule life_premium_net)
      apply (erule (1) 1)
     apply (erule disability_premium_net)
    apply (erule (1) 2)
    done
qed

lemma sample_mortality_cost:
  "calculate_mortality_cost sample_mortality_tables 79 ''male'' 3
     = Inr (0.045 + 0.05 / 1.035 + 0.05 / 1.035 ^ 2)"
  by (simp add: calculate_mortality_cost_def sample_mortality_tables_def upt_conv_Cons
        mortality_rate_at_def discounted_def true_div_def Let_def power2_eq_square)

lemma sample_premium_present_value:
  "calculate_premium_present_value sample_mortality_tables 3 79 ''male''
     = Inr (1 + 0.955 / 1.035 + 0.955 * 0.95 / 1.035 ^ 2)"
  by (simp add: calculate_premium_present_value_def sample_mortality_tables_def
        upt_conv_Cons mortality_rate_at_def discounted_def true_div_def Let_def
        power2_eq_square)

lemma sample_life_quote_returns:
  "\<exists>quote. calculate_life_insurance_premium sample_product_definitions
             sample_mortality_tables sample_rules 79 ''male'' 500000 3 ''whole_life'' None
           = Inr quote"
  by (simp add: calculate_life_insurance_premium_def sample_product_definitions_def
        sample_mortality_cost sample_premium_present_value and_then_def subscript_def
        checked_def validate_life_insurance_inputs_def out_of_range_def
        calculate_benefit_present_value_def net_premium_division_def true_div_def
        calculate_risk_multiplier_def empty_risk_factors_def
        calculate_policy_reserves_def Let_def)

lemma sample_life_quote_no_years_returns:
  "\<exists>quote. calculate_life_insurance_premium sample_product_definitions
             sample_mortality_tables sample_rules 79 ''male'' 500000 0 ''whole_life'' None
           = Inr quote"
  by (simp add: calculate_life_insurance_premium_def sample_product_definitions_def
        calculate_mortality_cost_def calculate_premium_present_value_def
        sample_mortality_tables_def and_then_def subscript_def
        checked_def validate_life_insurance_inputs_def out_of_range_def
        calculate_benefit_present_value_def net_premium_division_def true_div_def
        calculate_risk_multiplier_def empty_risk_factors_def
        calculate_policy_reserves_def Let_def)

lemma sample_disability_present_value:
  "calculate_disability_present_value (\<lambda>s. None) sample_mortality_tables 3000 0.012 63
     ''to_age_65'' = Inr (36000 * 0.012 + 36000 * 0.012 / 1.035)"
  by (simp add: calculate_disability_present_value_def sample_mortality_tables_def
        upt_conv_Cons discounted_def true_div_def Let_def)

lemma sample_disability_premium_present_value:
  "calculate_premium_present_value sample_mortality_tables (65 - 63) 63 ''male''
     = Inr (1 + 0.95 / 1.035)"
  by (simp add: calculate_premium_present_value_def sample_mortality_tables_def
        upt_conv_Cons mortality_rate_at_def discounted_def true_div_def Let_def)

lemma sample_disability_quote_returns:
  "\<exists>quote. calculate_disability_premium (\<lambda>s. None) sample_product_definitions
             sample_mortality_tables sample_morbidity_tables 63 ''male'' 1 3000
             ''to_age_65'' 90
           = Inr quote"
  using sample_disability_present_value sample_disability_premium_present_value
  by (simp add: calculate_disability_premium_def sample_product_definitions_def
        sample_morbidity_tables_def and_then_def subscript_def
        checked_def validate_disability_inputs_def out_of_range_def
        find_closest_age_def net_premium_division_def true_div_def
        get_waiting_period_adjustment_def
        calculate_policy_reserves_def Let_def)

lemma sample_morbidity_rate:
  assumes "occupation_classes sample_morbidity_tables = Some classes"
    and "classes 1 = Some occ_data"
    and "rates occ_data = Some age_data"
    and "find_closest_age 63 age_data = Inr closest_age"
    and "map_of age_data closest_age = Some by_gender"
    and "by_gender ''male'' = Some morbidity_rate"
  shows "morbidity_rate = 0.012"
proof -
  from assms(1) have c: "classes = [1 \<mapsto> \<lparr>occ_name = Some ''Professional'',
                rates = Some [(30, [''male'' \<mapsto> 0.003, ''female'' \<mapsto> 0.004]),
                              (60, [''male'' \<mapsto> 0.012, ''female'' \<mapsto> 0.014])]\<rparr>]"
    by (simp add: sample_morbidity_tables_def)
  from assms(2) have o: "occ_data = \<lparr>occ_name = Some ''Professional'',
                rates = Some [(30, [''male'' \<mapsto> 0.003, ''female'' \<mapsto> 0.004]),
                              (60, [''male'' \<mapsto> 0.012, ''female'' \<mapsto> 0.014])]\<rparr>"
    unfolding c by simp
  from assms(3) have d: "age_data = [(30, [''male'' \<mapsto> 0.003, ''female'' \<mapsto> 0.004]),
                              (60, [''male'' \<mapsto> 0.012, ''female'' \<mapsto> 0.014])]"
    unfolding o by simp
  from assms(4) have k: "closest_age = 60"
    unfolding d by (simp add: find_closest_age_def)
  from assms(5) have g: "by_gender = [''male'' \<mapsto> 0.012, ''female'' \<mapsto> 0.014]"
    unfolding d k by simp
  from assms(6) show ?thesis
    unfolding g by simp
qed

theorem net_premium_guarded_division_witness:
  "(\<exists>quote. calculate_life_insurance_premium sample_product_definitions
              sample_mortality_tables sample_rules 79 ''male'' 500000 3 ''whole_life'' None
            = Inr quote
          \<and> net_premium quote
              = 500000 * (0.045 + 0.05 / 1.035 + 0.05 / 1.035 ^ 2)
                  / (1 + 0.955 / 1.035 + 0.955 * 0.95 / 1.035 ^ 2))
   \<and> (\<exists>quote. calculate_life_insurance_premium sample_product_definitions
              sample_mortality_tables sample_rules 79 ''male'' 500000 0 ''whole_life'' None
            = Inr quote
          \<and> net_premium quote = 0)
   \<and> (\<exists>quote. calculate_disability_premium (\<lambda>s. None) sample_product_definitions
              sample_mortality_tables sample_morbidity_tables 63 ''male'' 1 3000
              ''to_age_65'' 90
            = Inr quote
          \<and> net_premium quote
              = (36000 * 0.012 + 36000 * 0.012 / 1.035) / (1 + 0.95 / 1.035))"
proof -
  obtain q1 where q1:
    "calculate_life_insurance_premium sample_product_definitions
       sample_mortality_tables sample_rules 79 ''male'' 500000 3 ''whole_life'' None = Inr q1"
    using sample_life_quote_returns by blast
  obtain q2 where q2:
    "calculate_life_insurance_premium sample_product_definitions
       sample_mortality_tables sample_rules 79 ''male'' 500000 0 ''whole_life'' None = Inr q2"
    using sample_life_quote_no_years_returns by blast
  obtain q3 where q3:
    "calculate_disability_premium (\<lambda>s. None) sample_product_definitions
       sample_mortality_tables sample_morbidity_tables 63 ''male'' 1 3000
       ''to_age_65'' 90 = Inr q3"
    using sample_disability_quote_returns by blast
  have pos1: "(0::real) < 1 + 0.955 / 1.035 + 0.955 * 0.95 / 1.035 ^ 2"
    by (simp add: power2_eq_square)
  have pos3: "(0::real) < 1 + 0.95 / 1.035" by simp
  note life3 = net_premium_guarded_division
    [where definitions = sample_product_definitions and tables = sample_mortality_tables
       and rules = sample_rules and a = 79 and sex = "''male''" and coverage = 500000
       and t = 3 and product_type = "''whole_life''" and factors = None and quote = q1
       and leading_int = "\<lambda>s. None" and morbidity = sample_morbidity_tables
       and occ_class = 1 and monthly_benefit = 3000 and benefit_period = "''to_age_65''"
       and waiting_period = 90 and disability_quote = q3 and benefit_pv = 1
       and premium_pv = 1]
  from life3 q1 obtain cost pv where c:
    "calculate_mortality_cost sample_mortality_tables 79 ''male'' 3 = Inr cost"
    "calculate_premium_present_value sample_mortality_tables 3 79 ''male'' = Inr pv"
    "net_premium q1
       = (if pv > 0 then calculate_benefit_present_value 500000 cost 79 ''male'' 3 / pv
          else 0)"
    by blast
  from c(1) sample_mortality_cost
  have cost: "cost = 0.045 + 0.05 / 1.035 + 0.05 / 1.035 ^ 2" by simp
  from c(2) sample_premium_present_value
  have pv: "pv = 1 + 0.955 / 1.035 + 0.955 * 0.95 / 1.035 ^ 2" by simp
  have n1: "net_premium q1
              = 500000 * (0.045 + 0.05 / 1.035 + 0.05 / 1.035 ^ 2)
                  / (1 + 0.955 / 1.035 + 0.955 * 0.95 / 1.035 ^ 2)"
    unfolding c(3) cost pv calculate_benefit_present_value_def using pos1 by simp
  note life0 = net_premium_guarded_division
    [where definitions = sample_product_definitions and tables = sample_mortality_tables
       and rules = sample_rules and a = 79 and sex = "''male''" and coverage = 500000
       and t = 0 and product_type = "''whole_life''" and factors = None and quote = q2
       and leading_int = "\<lambda>s. None" and morbidity = sample_morbidity_tables
       and occ_class = 1 and monthly_benefit = 3000 and benefit_period = "''to_age_65''"
       and waiting_period = 90 and disability_quote = q3 and benefit_pv = 1
       and premium_pv = 1]
  from life0 q2 have n2: "net_premium q2 = 0"
    by blast
  note dis = net_premium_guarded_division
    [where definitions = sample_product_definitions and tables = sample_mortality_tables
       and rules = sample_rules and a = 63 and sex = "''male''" and coverage = 500000
       and t = 0 and product_type = "''whole_life''" and factors = None and quote = q2
       and leading_int = "\<lambda>s. None" and morbidity = sample_morbidity_tables
       and occ_class = 1 and monthly_benefit = 3000 and benefit_period = "''to_age_65''"
       and waiting_period = 90 and disability_quote = q3 and benefit_pv = 1
       and premium_pv = 1]
  from dis q3 obtain classes occ_data age_data closest_age by_gender rate benefit dpv where d:
    "occupation_classes sample_morbidity_tables = Some classes"
    "classes 1 = Some occ_data"
    "rates occ_data = Some age_data"
    "find_closest_age 63 age_data = Inr closest_age"
    "map_of age_data closest_age = Some by_gender"
    "by_gender ''male'' = Some rate"
    "calculate_disability_present_value (\<lambda>s. None) sample_mortality_tables 3000 rate 63
       ''to_age_65'' = Inr benefit"
    "calculate_premium_present_value sample_mortality_tables (65 - 63) 63 ''male'' = Inr dpv"
    "net_premium q3 = (if dpv > 0 then benefit / dpv else 0)"
    by blast
  have rate: "rate = 0.012"
    using d(1-6) by (rule sample_morbidity_rate)
  from d(7) sample_disability_present_value
  have benefit: "benefit = 36000 * 0.012 + 36000 * 0.012 / 1.035"
    unfolding rate by simp
  from d(8) sample_disability_premium_present_value
  have dpv: "dpv = 1 + 0.95 / 1.035" by simp
  have n3: "net_premium q3 = (36000 * 0.012 + 36000 * 0.012 / 1.035) / (1 + 0.95 / 1.035)"
    unfolding d(9) benefit dpv using pos3 by simp
  show ?thesis
    using q1 n1 q2 n2 q3 n3 by blast
qed

subsection \<open>Unknown medical conditions\<close>

text \<open>
  C3. The underwriting engine multiplies in the conservative 1.5 for a declared condition
  that no category of the rule table holds. The premium calculator's own multiplier does
  not: \<open>_calculate_risk_multiplier\<close> looks a condition up only when it is the name of a
  category, so on the sample table the unknown condition \<open>rare_disease\<close> leaves the
  multiplier at 1.0 where the engine gives 1.5, and so does the tabulated condition
  \<open>hypertension_controlled\<close>.
\<close>

theorem calculator_ignores_unknown_condition:
  "calculate_risk_multiplier sample_rules
     \<lparr>rf_medical_conditions = Some [''rare_disease''],
      rf_smoking_status = Some ''non_smoker'', rf_hazardous_activities = Some []\<rparr>
     = Inr 1.0
   \<and> assess_medical_risk sample_rules
       \<lparr>conditions = Some [''rare_disease''], height = None, weight = None, mh_age = None\<rparr>
     = Inr (1.5, [Medical_unknown_condition ''rare_disease''])
   \<and> calculate_risk_multiplier sample_rules
     \<lparr>rf_medical_conditions = Some [''hypertension_controlled''],
      rf_smoking_status = Some ''non_smoker'', rf_hazardous_activities = Some []\<rparr>
     = Inr 1.0"
  by (simp add: calculate_risk_multiplier_def sample_rules_def assess_medical_risk_def
        bmi_assessment_def medical_age_adjustment_def Let_def)

text \<open>
  The conditions loop of the premium calculator returns the product of one multiplier
  for each condition that is the name of a category and that some category holds; every
  other condition, tabulated or not, contributes the factor 1.
\<close>

theorem calculator_conditions_product:
  "risk_conditions_loop (Some categories) cs m
     = Inr (m * prod_list (map (\<lambda>c. if c \<in> set (map fst categories)
                                       then (case find_condition categories c of
                                               Some k \<Rightarrow> k | None \<Rightarrow> 1)
                                       else 1) cs))"
  by (induction cs arbitrary: m) (simp_all add: mult.assoc split: option.splits)

section \<open>Properties of the regulatory engine\<close>

text \<open>
  C8. The adequacy check is true exactly when the total reserves are at least the larger
  of the solvency margin and the risk-based capital, so reserves equal to that maximum
  meet the requirement; and the reserve calculation of every portfolio reports the check
  of the totals it returns.
\<close>

theorem reserve_adequacy_inclusive:
  "(check_reserve_adequacy reserves_total margin rbc \<longleftrightarrow> reserves_total \<ge> max margin rbc)
   \<and> check_reserve_adequacy (max margin rbc) margin rbc
   \<and> (calculate_comprehensive_reserves cal today tables policy_portfolio valuation_date
         = Inr result
       \<longrightarrow> (regulatory_requirements_met result
              \<longleftrightarrow> total_reserves result
                    \<ge> max (solvency_margin result) (risk_based_capital result)))"
  by (auto simp: check_reserve_adequacy_def calculate_comprehensive_reserves_def
        and_then_Inr Let_def split: prod.splits)


lemma sample_empty_portfolio:
  "calculate_comprehensive_reserves sample_calendar ''2024-06-30'' sample_mortality_tables
     [] None
   = Inr \<lparr>policy_reserves = 0, unearned_premium_reserves = 0, claims_reserves = 0,
          total_reserves = 0, solvency_margin = 0, risk_based_capital = 0,
          regulatory_requirements_met = True\<rparr>"
  by (simp add: calculate_comprehensive_reserves_def and_then_def
        calculate_solvency_margin_def calculate_risk_based_capital_def
        check_reserve_adequacy_def Let_def)

lemma sample_policy_reserves:
  "regulatory_policy_reserves sample_mortality_tables sample_policy = Inr 10000"
  by (simp add: regulatory_policy_reserves_def sample_policy_def sample_mortality_tables_def
        calculate_future_benefits_pv_def calculate_future_premiums_pv_def
        mortality_table_of_def standard_discount_rate_def product_type_of_def
        coverage_amount_of_def annual_premium_of_def remaining_years_of_def
        current_age_of_def gender_of_def minimum_reserve_ratios_def
        upt_conv_Cons discounted_def true_div_def and_then_def Let_def)

lemma sample_unearned_premium:
  "calculate_unearned_premium_reserves sample_calendar sample_policy ''2024-06-30''
     = Inr (600 * (199 / 365))"
  by (simp add: calculate_unearned_premium_reserves_def sample_calendar_def
        sample_policy_def annual_premium_of_def raising_def and_then_def Let_def)

lemma sample_claims_reserves: "calculate_claims_reserves sample_policy = 500"
  by (simp add: calculate_claims_reserves_def sample_policy_def claims_reserve_factors_def
        product_type_of_def coverage_amount_of_def Let_def)

lemma sample_policy_reads:
  "product_type_of sample_policy = ''term_life''" "coverage_amount_of sample_policy = 500000"
  by (simp_all add: product_type_of_def coverage_amount_of_def sample_policy_def)

lemma sample_portfolio_totals:
  "\<exists>result.
     calculate_comprehensive_reserves sample_calendar ''2024-06-30'' sample_mortality_tables
       [sample_policy] None = Inr result
   \<and> total_reserves result = 10500 + 600 * (199 / 365)
   \<and> solvency_margin result = 20000"
  by (simp add: calculate_comprehensive_reserves_def sample_policy_reserves
        sample_unearned_premium sample_claims_reserves and_then_def
        calculate_solvency_margin_def solvency_margin_life_insurance_def
        sample_policy_reads Let_def)

theorem reserve_adequacy_inclusive_witness:
  "(\<exists>result.
      calculate_comprehensive_reserves sample_calendar ''2024-06-30''
        sample_mortality_tables [] None = Inr result
    \<and> total_reserves result = max (solvency_margin result) (risk_based_capital result)
    \<and> regulatory_requirements_met result)
   \<and> (\<exists>result.
      calculate_comprehensive_reserves sample_calendar ''2024-06-30''
        sample_mortality_tables [sample_policy] None = Inr result
    \<and> total_reserves result < max (solvency_margin result) (risk_based_capital result)
    \<and> \<not> regulatory_requirements_met result)"
proof -
  obtain r0 where r0:
    "calculate_comprehensive_reserves sample_calendar ''2024-06-30''
       sample_mortality_tables [] None = Inr r0"
    "total_reserves r0 = 0" "solvency_margin r0 = 0" "risk_based_capital r0 = 0"
    using sample_empty_portfolio by simp
  obtain r1 where r1:
    "calculate_comprehensive_reserves sample_calendar ''2024-06-30''
       sample_mortality_tables [sample_policy] None = Inr r1"
    "total_reserves r1 = 10500 + 600 * (199 / 365)" "solvency_margin r1 = 20000"
    using sample_portfolio_totals by blast
  note t0 = reserve_adequacy_inclusive
    [where cal = sample_calendar and today = "''2024-06-30''"
       and tables = sample_mortality_tables and policy_portfolio = "[]"
       and valuation_date = None and result = r0
       and reserves_total = 0 and margin = 0 and rbc = 0]
  note t1 = reserve_adequacy_inclusive
    [where cal = sample_calendar and today = "''2024-06-30''"
       and tables = sample_mortality_tables and policy_portfolio = "[sample_policy]"
       and valuation_date = None and result = r1
       and reserves_total = 0 and margin = 0 and rbc = 0]
  from t0 r0 have m0: "regulatory_requirements_met r0" by simp
  have lt: "total_reserves r1 < max (solvency_margin r1) (risk_based_capital r1)"
    unfolding r1 by simp
  then have "\<not> total_reserves r1 \<ge> max (solvency_margin r1) (risk_based_capital r1)"
    by (simp only: not_le)
  with t1 r1(1) have m1: "\<not> regulatory_requirements_met r1" by blast
  show ?thesis
    using r0 m0 r1(1) lt m1 by auto
qed

end
